theory Spec2Isabelle
  imports Complex_Main
begin

section \<open>Digital Snow Globe: the particle physics of src/js/heroshape.js\<close>

text \<open>
  The script animates a fixed set of discs inside a container. JavaScript numbers are
  modelled as \<^typ>\<open>real\<close>: every statement below is about the exact arithmetic the
  script approximates in IEEE doubles (no rounding, no NaN, no infinities).

  The DOM side of the script (element creation, colours, \<open>updateDOM\<close>) writes to the page
  and never feeds back into the physics; it is left out, except that a call of
  \<open>Math.random\<close> made on its behalf is still counted.
\<close>

subsection \<open>Configuration\<close>

text \<open>
  The object \<open>PHYSICS\<close> at the top of the script is configuration that the script
  invites its user to edit. The functions below take it as a parameter \<open>cfg\<close>;
  \<open>PHYSICS\<close> holds the values the script ships with. Every entry is a JavaScript
  number, the particle count too: the script only ever compares a counter with it.
\<close>

record physics =
  FRICTION :: real
  REPULSION_RADIUS :: real
  REPULSION_FORCE :: real
  BOUNCE_ENERGY :: real
  INITIAL_VELOCITY :: real
  PARTICLE_COUNT :: real
  MIN_SIZE :: real
  MAX_SIZE :: real

definition PHYSICS :: physics where
  "PHYSICS = \<lparr>FRICTION = 995 / 1000, REPULSION_RADIUS = 150, REPULSION_FORCE = 3,
     BOUNCE_ENERGY = 105 / 100, INITIAL_VELOCITY = 4, PARTICLE_COUNT = 35,
     MIN_SIZE = 25, MAX_SIZE = 55\<rparr>"

subsection \<open>Data\<close>

text \<open>
  A JavaScript object \<open>{x, y}\<close> (a velocity, a position, the mouse) is a \<open>vector\<close>.
  The fields of a particle are \<open>x\<close>, \<open>y\<close>, \<open>size\<close>, \<open>mass\<close>, \<open>friction\<close> and
  \<open>velocity\<close> in the script; the first three are prefixed here, because \<open>x\<close> and \<open>y\<close>
  are wanted as variables and \<open>size\<close> is a constant of HOL.
\<close>

record vector =
  vx :: real
  vy :: real

record particle =
  px :: real
  py :: real
  psize :: real
  mass :: real
  friction :: real
  velocity :: vector

text \<open>
  The globals of the script: the container's dimensions, the mouse and the array of
  particles. The mouse starts as \<open>{x: undefined, y: undefined}\<close> and the only
  assignment (the mousemove handler) sets both coordinates to numbers at once, so it is
  a \<open>vector option\<close>: \<open>None\<close> is \<open>mouse.x === undefined\<close>.
\<close>

record world =
  containerWidth :: real
  containerHeight :: real
  mouse :: "vector option"
  particles :: "particle list"

subsection \<open>utils\<close>

definition distance :: "real \<Rightarrow> real \<Rightarrow> real \<Rightarrow> real \<Rightarrow> real" where
  "distance x1 y1 x2 y2 = sqrt ((x2 - x1)\<^sup>2 + (y2 - y1)\<^sup>2)"

definition rotateVector :: "vector \<Rightarrow> real \<Rightarrow> vector" where
  "rotateVector v angle =
     \<lparr>vx = vx v * cos angle - vy v * sin angle,
      vy = vx v * sin angle + vy v * cos angle\<rparr>"


text \<open>
  \<open>Math.atan2(y, x)\<close>, the angle of the point \<open>(x, y)\<close> in \<open>(-\<pi>, \<pi>]\<close>, with
  \<open>atan2(0, 0) = 0\<close> as in JavaScript.
\<close>

definition atan2 :: "real \<Rightarrow> real \<Rightarrow> real" where
  "atan2 y x =
     (if 0 < x then arctan (y / x)
      else if x < 0 then (if 0 \<le> y then arctan (y / x) + pi else arctan (y / x) - pi)
      else if 0 < y then pi / 2
      else if y < 0 then - (pi / 2)
      else 0)"

subsection \<open>class Particle\<close>


definition applyForce :: "real \<Rightarrow> real \<Rightarrow> particle \<Rightarrow> particle" where
  "applyForce forceX forceY p =
     (let p1 = p\<lparr>velocity := (velocity p)\<lparr>vx := vx (velocity p) + forceX\<rparr>\<rparr>
      in p1\<lparr>velocity := (velocity p1)\<lparr>vy := vy (velocity p1) + forceY\<rparr>\<rparr>)"

text \<open>The four walls are tested one after the other, each on the result of the last.\<close>

definition handleWallCollisions :: "physics \<Rightarrow> real \<Rightarrow> real \<Rightarrow> particle \<Rightarrow> particle" where
  "handleWallCollisions cfg W H p =
     (let p1 = (if px p - psize p \<le> 0
                then p\<lparr>velocity := (velocity p)\<lparr>vx := \<bar>vx (velocity p)\<bar> * BOUNCE_ENERGY cfg\<rparr>,
                       px := psize p\<rparr>
                else p);
          p2 = (if px p1 + psize p1 \<ge> W
                then p1\<lparr>velocity := (velocity p1)\<lparr>vx := - \<bar>vx (velocity p1)\<bar> * BOUNCE_ENERGY cfg\<rparr>,
                        px := W - psize p1\<rparr>
                else p1);
          p3 = (if py p2 - psize p2 \<le> 0
                then p2\<lparr>velocity := (velocity p2)\<lparr>vy := \<bar>vy (velocity p2)\<bar> * BOUNCE_ENERGY cfg\<rparr>,
                        py := psize p2\<rparr>
                else p2)
      in (if py p3 + psize p3 \<ge> H
          then p3\<lparr>velocity := (velocity p3)\<lparr>vy := - \<bar>vy (velocity p3)\<bar> * BOUNCE_ENERGY cfg\<rparr>,
                  py := H - psize p3\<rparr>
          else p3))"

definition repelFromMouse :: "physics \<Rightarrow> vector option \<Rightarrow> particle \<Rightarrow> particle" where
  "repelFromMouse cfg m p =
     (case m of
        None \<Rightarrow> p
      | Some ms \<Rightarrow>
          (let d = distance (px p) (py p) (vx ms) (vy ms)
           in if d < REPULSION_RADIUS cfg \<and> d > 0
              then (let force = ((REPULSION_RADIUS cfg - d) / REPULSION_RADIUS cfg) * REPULSION_FORCE cfg;
                        angle = atan2 (py p - vy ms) (px p - vx ms)
                    in applyForce (cos angle * force) (sin angle * force) p)
              else p))"

definition calculateCollisionVelocity :: "vector \<Rightarrow> vector \<Rightarrow> real \<Rightarrow> real \<Rightarrow> vector" where
  "calculateCollisionVelocity v1 v2 m1 m2 =
     \<lparr>vx = (vx v1 * (m1 - m2) + vx v2 * 2 * m2) / (m1 + m2), vy = vy v1\<rparr>"

text \<open>
  \<open>this.handleCollision(otherParticle)\<close> for two different objects (the only call,
  in \<open>update\<close>, is guarded by \<open>particle !== this\<close>): the result is the pair of both
  particles after the call.
\<close>

definition handleCollision :: "particle \<Rightarrow> particle \<Rightarrow> particle \<times> particle" where
  "handleCollision this other =
     (let d = distance (px this) (py this) (px other) (py other)
      in if d \<le> 0 \<or> d \<ge> psize this + psize other then (this, other)
         else (let angle = - atan2 (py other - py this) (px other - px this);
                   velocity1 = rotateVector (velocity this) angle;
                   velocity2 = rotateVector (velocity other) angle;
                   newVelocity1 = calculateCollisionVelocity velocity1 velocity2 (mass this) (mass other);
                   newVelocity2 = calculateCollisionVelocity velocity2 velocity1 (mass other) (mass this)
               in (this\<lparr>velocity := rotateVector newVelocity1 (- angle)\<rparr>,
                   other\<lparr>velocity := rotateVector newVelocity2 (- angle)\<rparr>)))"

definition updatePosition :: "particle \<Rightarrow> particle" where
  "updatePosition p =
     (let p1 = p\<lparr>velocity := (velocity p)\<lparr>vx := vx (velocity p) * friction p\<rparr>\<rparr>;
          p2 = p1\<lparr>velocity := (velocity p1)\<lparr>vy := vy (velocity p1) * friction p1\<rparr>\<rparr>;
          p3 = p2\<lparr>px := px p2 + vx (velocity p2)\<rparr>
      in p3\<lparr>py := py p3 + vy (velocity p3)\<rparr>)"

subsection \<open>The frame\<close>

text \<open>
  The particles live in one array and are mutated in place; a particle is named by its
  index. \<open>collide i j\<close> is \<open>particles[i].handleCollision(particles[j])\<close>, writing both
  objects back.
\<close>

definition collide :: "nat \<Rightarrow> nat \<Rightarrow> particle list \<Rightarrow> particle list" where
  "collide i j ps = (let (p, q) = handleCollision (ps ! i) (ps ! j) in (ps[i := p])[j := q])"

text \<open>
  \<open>allParticles.forEach((particle) => { if (particle !== this) this.handleCollision(particle); })\<close>
\<close>

definition collideAll :: "nat \<Rightarrow> particle list \<Rightarrow> particle list" where
  "collideAll i ps = fold (\<lambda>j qs. if j \<noteq> i then collide i j qs else qs) [0..<length ps] ps"

text \<open>\<open>particles[i].update(particles)\<close>.\<close>

definition update :: "physics \<Rightarrow> nat \<Rightarrow> world \<Rightarrow> world" where
  "update cfg i w =
     (let ps1 = (particles w)[i := repelFromMouse cfg (mouse w) (particles w ! i)];
          ps2 = collideAll i ps1;
          ps3 = ps2[i := updatePosition (ps2 ! i)];
          ps4 = ps3[i := handleWallCollisions cfg (containerWidth w) (containerHeight w) (ps3 ! i)]
      in w\<lparr>particles := ps4\<rparr>)"

text \<open>
  One frame of \<open>animate\<close>: \<open>particles.forEach((particle) => particle.update(particles))\<close>.
  The browser calls it again for the next frame.
\<close>

definition animate :: "physics \<Rightarrow> world \<Rightarrow> world" where
  "animate cfg w = fold (update cfg) [0..<length (particles w)] w"


subsection \<open>The order of the calls in a frame\<close>

text \<open>
  The same frame, recording each method call as it is made: \<open>Repel i\<close> for
  \<open>repelFromMouse\<close> on particle \<open>i\<close>, \<open>Collide i j\<close> for
  \<open>particles[i].handleCollision(particles[j])\<close>, \<open>Integrate i\<close> for \<open>updatePosition\<close> and
  \<open>Walls i\<close> for \<open>handleWallCollisions\<close>. The record is a ghost: it is written and never
  read.
\<close>

datatype event = Repel nat | Collide nat nat | Integrate nat | Walls nat

definition collideAll_log :: "nat \<Rightarrow> particle list \<times> event list \<Rightarrow> particle list \<times> event list" where
  "collideAll_log i st =
     fold (\<lambda>j (qs, l). if j \<noteq> i then (collide i j qs, l @ [Collide i j]) else (qs, l))
       [0..<length (fst st)] st"

definition update_log :: "physics \<Rightarrow> nat \<Rightarrow> world \<times> event list \<Rightarrow> world \<times> event list" where
  "update_log cfg i st =
     (let w = fst st;
          ps1 = (particles w)[i := repelFromMouse cfg (mouse w) (particles w ! i)];
          l1 = snd st @ [Repel i];
          (ps2, l2) = collideAll_log i (ps1, l1);
          ps3 = ps2[i := updatePosition (ps2 ! i)];
          l3 = l2 @ [Integrate i];
          ps4 = ps3[i := handleWallCollisions cfg (containerWidth w) (containerHeight w) (ps3 ! i)];
          l4 = l3 @ [Walls i]
      in (w\<lparr>particles := ps4\<rparr>, l4))"

definition animate_log :: "physics \<Rightarrow> world \<Rightarrow> world \<times> event list" where
  "animate_log cfg w = fold (update_log cfg) [0..<length (particles w)] (w, [])"

text \<open>What \<open>update\<close> calls for particle \<open>i\<close> among \<open>n\<close> particles, in order.\<close>

definition calls_of :: "nat \<Rightarrow> nat \<Rightarrow> event list" where
  "calls_of n i = Repel i # map (Collide i) (filter (\<lambda>j. j \<noteq> i) [0..<n]) @ [Integrate i, Walls i]"

text \<open>The \<open>handleCollision\<close> calls of a record, as pairs (this, other).\<close>

fun collisions :: "event list \<Rightarrow> (nat \<times> nat) list" where
  "collisions [] = []"
| "collisions (Collide i j # es) = (i, j) # collisions es"
| "collisions (e # es) = collisions es"

text \<open>All ordered pairs of different indices below \<open>n\<close>, row by row.\<close>

definition ordered_pairs :: "nat \<Rightarrow> (nat \<times> nat) list" where
  "ordered_pairs n = concat (map (\<lambda>i. map (Pair i) (filter (\<lambda>j. j \<noteq> i) [0..<n])) [0..<n])"

text \<open>
  A record is phased when nothing is integrated before the last repulsion and the last
  collision: after an \<open>Integrate\<close> there is no \<open>Repel\<close> and no \<open>Collide\<close>.
\<close>

fun early :: "event \<Rightarrow> bool" where
  "early (Repel i) = True"
| "early (Collide i j) = True"
| "early (Integrate i) = False"
| "early (Walls i) = False"

fun phased :: "event list \<Rightarrow> bool" where
  "phased [] = True"
| "phased (Integrate i # es) = (\<not> list_ex early es \<and> phased es)"
| "phased (e # es) = phased es"

subsection \<open>The step of the specification, in phases\<close>

text \<open>
  The specification's \<open>step()\<close>, from its words and not from the script: repulsion for
  every body, then collision resolution for every unordered pair, then integration and
  wall resolution for every body.
\<close>

definition unordered_pairs :: "nat \<Rightarrow> (nat \<times> nat) list" where
  "unordered_pairs n = concat (map (\<lambda>i. map (Pair i) [Suc i..<n]) [0..<n])"

definition step_spec :: "physics \<Rightarrow> world \<Rightarrow> world" where
  "step_spec cfg w =
     (let ps1 = map (repelFromMouse cfg (mouse w)) (particles w);
          ps2 = fold (\<lambda>(i, j) qs. collide i j qs) (unordered_pairs (length ps1)) ps1;
          ps3 = map (\<lambda>p. handleWallCollisions cfg (containerWidth w) (containerHeight w) (updatePosition p)) ps2
      in w\<lparr>particles := ps3\<rparr>)"

subsection \<open>Initialisation\<close>

text \<open>
  \<open>Math.random\<close> is a sequence \<open>rnd\<close> of numbers and a counter \<open>k\<close> of the calls made so
  far: each call returns \<open>rnd k\<close> and advances the counter.
\<close>

definition randomPosition :: "(nat \<Rightarrow> real) \<Rightarrow> real \<Rightarrow> real \<Rightarrow> real \<Rightarrow> nat \<Rightarrow> vector \<times> nat" where
  "randomPosition rnd W H sz k =
     (\<lparr>vx = rnd k * (W - 2 * sz) + sz, vy = rnd (k + 1) * (H - 2 * sz) + sz\<rparr>, k + 2)"

definition randomSize :: "physics \<Rightarrow> (nat \<Rightarrow> real) \<Rightarrow> nat \<Rightarrow> real \<times> nat" where
  "randomSize cfg rnd k = (MIN_SIZE cfg + rnd k * (MAX_SIZE cfg - MIN_SIZE cfg), k + 1)"

text \<open>\<open>utils.randomColor\<close> picks a fill colour: one call of \<open>Math.random\<close>, no physics.\<close>

definition randomColor :: "nat \<Rightarrow> nat" where
  "randomColor k = k + 1"

definition randomVelocity :: "physics \<Rightarrow> (nat \<Rightarrow> real) \<Rightarrow> nat \<Rightarrow> vector \<times> nat" where
  "randomVelocity cfg rnd k =
     (\<lparr>vx = (rnd k - 1 / 2) * INITIAL_VELOCITY cfg,
       vy = (rnd (k + 1) - 1 / 2) * INITIAL_VELOCITY cfg\<rparr>, k + 2)"

text \<open>The constructor of \<open>Particle\<close>.\<close>

definition Particle :: "physics \<Rightarrow> (nat \<Rightarrow> real) \<Rightarrow> real \<Rightarrow> real \<Rightarrow> real \<Rightarrow> nat \<Rightarrow> particle \<times> nat" where
  "Particle cfg rnd x y sz k =
     (let (v, k') = randomVelocity cfg rnd k
      in (\<lparr>px = x, py = y, psize = sz, mass = sz * 2, friction = FRICTION cfg, velocity = v\<rparr>, k'))"

text \<open>The \<open>while (attempts < MAX_ATTEMPTS)\<close> loop of \<open>findValidPosition\<close>.\<close>

function findValidPosition_loop ::
  "(nat \<Rightarrow> real) \<Rightarrow> real \<Rightarrow> real \<Rightarrow> real \<Rightarrow> particle list \<Rightarrow> vector \<Rightarrow> nat \<Rightarrow> nat \<Rightarrow> vector \<times> nat" where
  "findValidPosition_loop rnd W H sz existing position attempts k =
     (if attempts < 100
      then (if \<not> list_ex (\<lambda>p. distance (vx position) (vy position) (px p) (py p) < sz + psize p) existing
            then (position, k)
            else findValidPosition_loop rnd W H sz existing
                   (fst (randomPosition rnd W H sz k)) (attempts + 1) (snd (randomPosition rnd W H sz k)))
      else (position, k))"
  by pat_completeness auto
termination
  by (relation "measure (\<lambda>(rnd, W, H, sz, existing, position, attempts, k). 100 - attempts)") auto

declare findValidPosition_loop.simps [simp del]

definition findValidPosition ::
  "(nat \<Rightarrow> real) \<Rightarrow> real \<Rightarrow> real \<Rightarrow> real \<Rightarrow> particle list \<Rightarrow> nat \<Rightarrow> vector \<times> nat" where
  "findValidPosition rnd W H sz existing k =
     (let (position, k1) = randomPosition rnd W H sz k
      in findValidPosition_loop rnd W H sz existing position 0 k1)"

text \<open>One pass of the body of the \<open>for\<close> loop of \<open>createParticles\<close>.\<close>

definition createParticle :: "physics \<Rightarrow> (nat \<Rightarrow> real) \<Rightarrow> real \<Rightarrow> real \<Rightarrow> particle list \<Rightarrow> nat \<Rightarrow> particle list \<times> nat" where
  "createParticle cfg rnd W H ps k =
     (let (sz, k1) = randomSize cfg rnd k;
          (position, k2) = findValidPosition rnd W H sz ps k1;
          k3 = randomColor k2;
          (p, k4) = Particle cfg rnd (vx position) (vy position) sz k3
      in (ps @ [p], k4))"

text \<open>
  \<open>for (let i = 0; i < PHYSICS.PARTICLE_COUNT; i++)\<close>. The counter runs through
  0, 1, 2, ... and is compared with the count as a number, so a count of 2.5 lets three
  passes through. The counter is exact here; the script's is a double, which is exact up
  to \<open>2^53\<close>.
\<close>

function createParticles_loop ::
  "physics \<Rightarrow> (nat \<Rightarrow> real) \<Rightarrow> real \<Rightarrow> real \<Rightarrow> int \<Rightarrow> particle list \<Rightarrow> nat \<Rightarrow> particle list \<times> nat" where
  "createParticles_loop cfg rnd W H i ps k =
     (if of_int i < PARTICLE_COUNT cfg
      then createParticles_loop cfg rnd W H (i + 1)
             (fst (createParticle cfg rnd W H ps k)) (snd (createParticle cfg rnd W H ps k))
      else (ps, k))"
  by pat_completeness auto
termination
  by (relation "measure (\<lambda>(cfg, rnd, W, H, i, ps, k). nat (\<lceil>PARTICLE_COUNT cfg\<rceil> - i))")
     (auto simp add: less_ceiling_iff [symmetric])

declare createParticles_loop.simps [simp del]

definition createParticles :: "physics \<Rightarrow> (nat \<Rightarrow> real) \<Rightarrow> real \<Rightarrow> real \<Rightarrow> particle list \<times> nat" where
  "createParticles cfg rnd W H = createParticles_loop cfg rnd W H 0 [] 0"

text \<open>
  \<open>init\<close> empties the array, reads the container's dimensions \<open>W\<close> and \<open>H\<close> and creates the
  particles. The script has no \<open>throw\<close> and checks nothing about \<open>PHYSICS\<close>, so the result
  is never an error; the error side of the type is there for a failure to be expressible.
\<close>

datatype error = ConfigurationError

definition init :: "physics \<Rightarrow> (nat \<Rightarrow> real) \<Rightarrow> real \<Rightarrow> real \<Rightarrow> error + world" where
  "init cfg rnd W H =
     Inr \<lparr>containerWidth = W, containerHeight = H, mouse = None,
          particles = fst (createParticles cfg rnd W H)\<rparr>"

subsection \<open>Conditions of the script, named\<close>

text \<open>
  The test of \<open>handleCollision\<close> that lets a collision through: the negation of
  \<open>distance <= 0 || distance >= this.size + otherParticle.size\<close>.
\<close>

definition overlapping :: "particle \<Rightarrow> particle \<Rightarrow> bool" where
  "overlapping p q =
     (\<not> (distance (px p) (py p) (px q) (py q) \<le> 0
         \<or> distance (px p) (py p) (px q) (py q) \<ge> psize p + psize q))"

text \<open>Any of the four tests of \<open>handleWallCollisions\<close>.\<close>

definition touches_wall :: "real \<Rightarrow> real \<Rightarrow> particle \<Rightarrow> bool" where
  "touches_wall W H p =
     (px p - psize p \<le> 0 \<or> px p + psize p \<ge> W \<or> py p - psize p \<le> 0 \<or> py p + psize p \<ge> H)"

text \<open>The test of \<open>repelFromMouse\<close> that lets a force through.\<close>

definition repelled :: "physics \<Rightarrow> vector option \<Rightarrow> particle \<Rightarrow> bool" where
  "repelled cfg m p =
     (case m of None \<Rightarrow> False
      | Some ms \<Rightarrow> distance (px p) (py p) (vx ms) (vy ms) < REPULSION_RADIUS cfg
                   \<and> distance (px p) (py p) (vx ms) (vy ms) > 0)"

text \<open>A particle with its velocity blanked: everything that is not its velocity.\<close>

definition still :: "particle \<Rightarrow> particle" where
  "still p = p\<lparr>velocity := \<lparr>vx = 0, vy = 0\<rparr>\<rparr>"

text \<open>The four tests of \<open>handleWallCollisions\<close>, one at a time.\<close>

definition leftWall :: "physics \<Rightarrow> particle \<Rightarrow> particle" where
  "leftWall cfg p = (if px p - psize p \<le> 0
                then p\<lparr>velocity := (velocity p)\<lparr>vx := \<bar>vx (velocity p)\<bar> * BOUNCE_ENERGY cfg\<rparr>,
                       px := psize p\<rparr>
                else p)"

definition rightWall :: "physics \<Rightarrow> real \<Rightarrow> particle \<Rightarrow> particle" where
  "rightWall cfg W p1 = (if px p1 + psize p1 \<ge> W
                then p1\<lparr>velocity := (velocity p1)\<lparr>vx := - \<bar>vx (velocity p1)\<bar> * BOUNCE_ENERGY cfg\<rparr>,
                        px := W - psize p1\<rparr>
                else p1)"

definition topWall :: "physics \<Rightarrow> particle \<Rightarrow> particle" where
  "topWall cfg p2 = (if py p2 - psize p2 \<le> 0
                then p2\<lparr>velocity := (velocity p2)\<lparr>vy := \<bar>vy (velocity p2)\<bar> * BOUNCE_ENERGY cfg\<rparr>,
                        py := psize p2\<rparr>
                else p2)"

definition bottomWall :: "physics \<Rightarrow> real \<Rightarrow> particle \<Rightarrow> particle" where
  "bottomWall cfg H p3 = (if py p3 + psize p3 \<ge> H
          then p3\<lparr>velocity := (velocity p3)\<lparr>vy := - \<bar>vy (velocity p3)\<bar> * BOUNCE_ENERGY cfg\<rparr>,
                  py := H - psize p3\<rparr>
          else p3)"

text \<open>What the constructor, called from \<open>createParticles\<close>, makes of a particle.\<close>

definition constructed :: "physics \<Rightarrow> (nat \<Rightarrow> real) \<Rightarrow> particle \<Rightarrow> bool" where
  "constructed cfg rnd p =
     ((\<exists>k. psize p = MIN_SIZE cfg + rnd k * (MAX_SIZE cfg - MIN_SIZE cfg))
      \<and> mass p = psize p * 2 \<and> friction p = FRICTION cfg)"

text \<open>The position a particle may have in a container of width \<open>W\<close> and height \<open>H\<close>.\<close>

definition inside :: "real \<Rightarrow> real \<Rightarrow> particle \<Rightarrow> bool" where
  "inside W H p = (psize p \<le> px p \<and> px p \<le> W - psize p \<and> psize p \<le> py p \<and> py p \<le> H - psize p)"

subsection \<open>Concrete inputs\<close>

text \<open>Two overlapping discs of radius 20 on a horizontal line, moving towards each other.\<close>

definition ball0 :: particle where
  "ball0 = \<lparr>px = 100, py = 100, psize = 20, mass = 40, friction = 995 / 1000,
            velocity = \<lparr>vx = 1, vy = 0\<rparr>\<rparr>"

definition ball1 :: particle where
  "ball1 = \<lparr>px = 130, py = 100, psize = 20, mass = 40, friction = 995 / 1000,
            velocity = \<lparr>vx = - 1, vy = 0\<rparr>\<rparr>"

definition world2 :: world where
  "world2 = \<lparr>containerWidth = 400, containerHeight = 300, mouse = None, particles = [ball0, ball1]\<rparr>"

text \<open>The first disc after its first collision and its move.\<close>

definition ball0_moved :: particle where
  "ball0_moved = \<lparr>px = 99005 / 1000, py = 100, psize = 20, mass = 40, friction = 995 / 1000,
            velocity = \<lparr>vx = - (995 / 1000), vy = 0\<rparr>\<rparr>"

text \<open>Two discs far from each other and from the walls; the mouse sits on the centre of the first.\<close>

definition ball_far :: particle where
  "ball_far = \<lparr>px = 300, py = 100, psize = 20, mass = 40, friction = 995 / 1000,
            velocity = \<lparr>vx = 0, vy = 2\<rparr>\<rparr>"

definition apart_world :: world where
  "apart_world = \<lparr>containerWidth = 400, containerHeight = 300, mouse = Some \<lparr>vx = 100, vy = 100\<rparr>,
      particles = [ball0, ball_far]\<rparr>"

text \<open>A \<open>Math.random\<close> that always returns one half, and two configurations.\<close>

definition half_rnd :: "nat \<Rightarrow> real" where
  "half_rnd k = 1 / 2"

definition no_particles :: physics where
  "no_particles = PHYSICS\<lparr>PARTICLE_COUNT := 0\<rparr>"

definition swapped_sizes :: physics where
  "swapped_sizes = PHYSICS\<lparr>PARTICLE_COUNT := 1, MIN_SIZE := 55, MAX_SIZE := 25\<rparr>"

text \<open>The scenario of the specification: one body of radius 20 at (10, 150), velocity (-3, 0).\<close>

definition scenario_body :: particle where
  "scenario_body = \<lparr>px = 10, py = 150, psize = 20, mass = 40, friction = 1,
                    velocity = \<lparr>vx = - 3, vy = 0\<rparr>\<rparr>"

definition scenario_world :: world where
  "scenario_world = \<lparr>containerWidth = 400, containerHeight = 300, mouse = None,
                     particles = [scenario_body]\<rparr>"


subsection \<open>The script's numbers\<close>

text \<open>
  A JavaScript number that need not be a real number: \<open>Infinity\<close>, \<open>-Infinity\<close> and
  \<open>NaN\<close> beside the finite values. The finite results of an operation are kept exact
  (rounding is left out), a result at or beyond the overflow threshold of a double,
  \<open>2^1024 - 2^970\<close>, is an infinity, and the operations treat infinities and \<open>NaN\<close> as
  IEEE 754 does. Zero has no sign here.
\<close>

datatype number = Num real | PInf | MInf | NaN

definition OVERFLOW :: real where
  "OVERFLOW = 2 ^ 1024 - 2 ^ 970"

definition fin :: "real \<Rightarrow> number" where
  "fin r = (if r \<ge> OVERFLOW then PInf else if r \<le> - OVERFLOW then MInf else Num r)"

fun neg :: "number \<Rightarrow> number" where
  "neg (Num a) = Num (- a)"
| "neg PInf = MInf"
| "neg MInf = PInf"
| "neg NaN = NaN"

fun add :: "number \<Rightarrow> number \<Rightarrow> number" where
  "add NaN b = NaN"
| "add a NaN = NaN"
| "add (Num a) (Num b) = fin (a + b)"
| "add PInf MInf = NaN"
| "add MInf PInf = NaN"
| "add PInf b = PInf"
| "add a PInf = PInf"
| "add MInf b = MInf"
| "add a MInf = MInf"

definition sub :: "number \<Rightarrow> number \<Rightarrow> number" where
  "sub a b = add a (neg b)"

fun mul :: "number \<Rightarrow> number \<Rightarrow> number" where
  "mul NaN b = NaN"
| "mul a NaN = NaN"
| "mul (Num a) (Num b) = fin (a * b)"
| "mul PInf (Num b) = (if b = 0 then NaN else if b > 0 then PInf else MInf)"
| "mul MInf (Num b) = (if b = 0 then NaN else if b > 0 then MInf else PInf)"
| "mul (Num a) PInf = (if a = 0 then NaN else if a > 0 then PInf else MInf)"
| "mul (Num a) MInf = (if a = 0 then NaN else if a > 0 then MInf else PInf)"
| "mul PInf PInf = PInf"
| "mul PInf MInf = MInf"
| "mul MInf PInf = MInf"
| "mul MInf MInf = PInf"

text \<open>Division by zero gives an infinity of the sign of the dividend, zero being \<open>+0\<close>.\<close>

fun divide_n :: "number \<Rightarrow> number \<Rightarrow> number" where
  "divide_n NaN b = NaN"
| "divide_n a NaN = NaN"
| "divide_n (Num a) (Num b) =
     (if b = 0 then (if a = 0 then NaN else if a > 0 then PInf else MInf) else fin (a / b))"
| "divide_n (Num a) b = Num 0"
| "divide_n PInf (Num b) = (if b \<ge> 0 then PInf else MInf)"
| "divide_n MInf (Num b) = (if b \<ge> 0 then MInf else PInf)"
| "divide_n a b = NaN"

fun abs_n :: "number \<Rightarrow> number" where
  "abs_n (Num a) = Num \<bar>a\<bar>"
| "abs_n PInf = PInf"
| "abs_n MInf = PInf"
| "abs_n NaN = NaN"

fun sqrt_n :: "number \<Rightarrow> number" where
  "sqrt_n (Num a) = (if a < 0 then NaN else Num (sqrt a))"
| "sqrt_n PInf = PInf"
| "sqrt_n MInf = NaN"
| "sqrt_n NaN = NaN"

fun cos_n :: "number \<Rightarrow> number" where
  "cos_n (Num a) = Num (cos a)"
| "cos_n a = NaN"

fun sin_n :: "number \<Rightarrow> number" where
  "sin_n (Num a) = Num (sin a)"
| "sin_n a = NaN"

fun atan2_n :: "number \<Rightarrow> number \<Rightarrow> number" where
  "atan2_n NaN x = NaN"
| "atan2_n y NaN = NaN"
| "atan2_n (Num y) (Num x) = Num (atan2 y x)"
| "atan2_n (Num y) PInf = Num 0"
| "atan2_n (Num y) MInf = (if y \<ge> 0 then Num pi else Num (- pi))"
| "atan2_n PInf (Num x) = Num (pi / 2)"
| "atan2_n MInf (Num x) = Num (- (pi / 2))"
| "atan2_n PInf PInf = Num (pi / 4)"
| "atan2_n PInf MInf = Num (3 * pi / 4)"
| "atan2_n MInf PInf = Num (- (pi / 4))"
| "atan2_n MInf MInf = Num (- (3 * pi / 4))"

text \<open>The comparisons \<open><=\<close> and \<open><\<close>; with \<open>NaN\<close> on either side they are false.\<close>

fun le :: "number \<Rightarrow> number \<Rightarrow> bool" where
  "le NaN b = False"
| "le a NaN = False"
| "le (Num a) (Num b) = (a \<le> b)"
| "le MInf b = True"
| "le a PInf = True"
| "le a b = False"

fun lt :: "number \<Rightarrow> number \<Rightarrow> bool" where
  "lt NaN b = False"
| "lt a NaN = False"
| "lt (Num a) (Num b) = (a < b)"
| "lt PInf b = False"
| "lt a MInf = False"
| "lt a b = True"

subsection \<open>The frame on the script's numbers\<close>

text \<open>
  The same script again, from the same lines, with every field a \<open>number\<close>: what the
  frame does once a velocity has overflowed. The configuration stays real.
\<close>

record nvector =
  nvx :: number
  nvy :: number

record nparticle =
  npx :: number
  npy :: number
  nsize :: number
  nmass :: number
  nfriction :: number
  nvelocity :: nvector

record nworld =
  nWidth :: number
  nHeight :: number
  nmouse :: "nvector option"
  nparticles :: "nparticle list"

text \<open>\<open>utils.distance\<close>; the square \<open>d ** 2\<close> is the product of \<open>d\<close> with itself.\<close>

definition distance_n :: "number \<Rightarrow> number \<Rightarrow> number \<Rightarrow> number \<Rightarrow> number" where
  "distance_n x1 y1 x2 y2 =
     sqrt_n (add (mul (sub x2 x1) (sub x2 x1)) (mul (sub y2 y1) (sub y2 y1)))"

definition rotateVector_n :: "nvector \<Rightarrow> number \<Rightarrow> nvector" where
  "rotateVector_n v angle =
     \<lparr>nvx = sub (mul (nvx v) (cos_n angle)) (mul (nvy v) (sin_n angle)),
      nvy = add (mul (nvx v) (sin_n angle)) (mul (nvy v) (cos_n angle))\<rparr>"

definition applyForce_n :: "number \<Rightarrow> number \<Rightarrow> nparticle \<Rightarrow> nparticle" where
  "applyForce_n forceX forceY p =
     (let p1 = p\<lparr>nvelocity := (nvelocity p)\<lparr>nvx := add (nvx (nvelocity p)) forceX\<rparr>\<rparr>
      in p1\<lparr>nvelocity := (nvelocity p1)\<lparr>nvy := add (nvy (nvelocity p1)) forceY\<rparr>\<rparr>)"

definition leftWall_n :: "physics \<Rightarrow> nparticle \<Rightarrow> nparticle" where
  "leftWall_n cfg p =
     (if le (sub (npx p) (nsize p)) (Num 0)
      then p\<lparr>nvelocity := (nvelocity p)\<lparr>nvx := mul (abs_n (nvx (nvelocity p))) (Num (BOUNCE_ENERGY cfg))\<rparr>,
             npx := nsize p\<rparr>
      else p)"

definition rightWall_n :: "physics \<Rightarrow> number \<Rightarrow> nparticle \<Rightarrow> nparticle" where
  "rightWall_n cfg W p =
     (if le W (add (npx p) (nsize p))
      then p\<lparr>nvelocity := (nvelocity p)\<lparr>nvx := mul (neg (abs_n (nvx (nvelocity p)))) (Num (BOUNCE_ENERGY cfg))\<rparr>,
             npx := sub W (nsize p)\<rparr>
      else p)"

definition topWall_n :: "physics \<Rightarrow> nparticle \<Rightarrow> nparticle" where
  "topWall_n cfg p =
     (if le (sub (npy p) (nsize p)) (Num 0)
      then p\<lparr>nvelocity := (nvelocity p)\<lparr>nvy := mul (abs_n (nvy (nvelocity p))) (Num (BOUNCE_ENERGY cfg))\<rparr>,
             npy := nsize p\<rparr>
      else p)"

definition bottomWall_n :: "physics \<Rightarrow> number \<Rightarrow> nparticle \<Rightarrow> nparticle" where
  "bottomWall_n cfg H p =
     (if le H (add (npy p) (nsize p))
      then p\<lparr>nvelocity := (nvelocity p)\<lparr>nvy := mul (neg (abs_n (nvy (nvelocity p)))) (Num (BOUNCE_ENERGY cfg))\<rparr>,
             npy := sub H (nsize p)\<rparr>
      else p)"

text \<open>\<open>handleWallCollisions\<close>: the four tests, each on the result of the one before.\<close>

definition handleWallCollisions_n :: "physics \<Rightarrow> number \<Rightarrow> number \<Rightarrow> nparticle \<Rightarrow> nparticle" where
  "handleWallCollisions_n cfg W H p =
     bottomWall_n cfg H (topWall_n cfg (rightWall_n cfg W (leftWall_n cfg p)))"

definition repelFromMouse_n :: "physics \<Rightarrow> nvector option \<Rightarrow> nparticle \<Rightarrow> nparticle" where
  "repelFromMouse_n cfg m p =
     (case m of
        None \<Rightarrow> p
      | Some ms \<Rightarrow>
          (let d = distance_n (npx p) (npy p) (nvx ms) (nvy ms)
           in if lt d (Num (REPULSION_RADIUS cfg)) \<and> lt (Num 0) d
              then (let force = mul (divide_n (sub (Num (REPULSION_RADIUS cfg)) d) (Num (REPULSION_RADIUS cfg)))
                                    (Num (REPULSION_FORCE cfg));
                        angle = atan2_n (sub (npy p) (nvy ms)) (sub (npx p) (nvx ms))
                    in applyForce_n (mul (cos_n angle) force) (mul (sin_n angle) force) p)
              else p))"

definition calculateCollisionVelocity_n :: "nvector \<Rightarrow> nvector \<Rightarrow> number \<Rightarrow> number \<Rightarrow> nvector" where
  "calculateCollisionVelocity_n v1 v2 m1 m2 =
     \<lparr>nvx = divide_n (add (mul (nvx v1) (sub m1 m2)) (mul (mul (nvx v2) (Num 2)) m2)) (add m1 m2),
      nvy = nvy v1\<rparr>"

text \<open>
  A distance that is \<open>NaN\<close> passes neither test of the early return, so the collision
  goes through.
\<close>

definition handleCollision_n :: "nparticle \<Rightarrow> nparticle \<Rightarrow> nparticle \<times> nparticle" where
  "handleCollision_n this other =
     (let d = distance_n (npx this) (npy this) (npx other) (npy other)
      in if le d (Num 0) \<or> le (add (nsize this) (nsize other)) d then (this, other)
         else (let angle = neg (atan2_n (sub (npy other) (npy this)) (sub (npx other) (npx this)));
                   velocity1 = rotateVector_n (nvelocity this) angle;
                   velocity2 = rotateVector_n (nvelocity other) angle;
                   newVelocity1 = calculateCollisionVelocity_n velocity1 velocity2 (nmass this) (nmass other);
                   newVelocity2 = calculateCollisionVelocity_n velocity2 velocity1 (nmass other) (nmass this)
               in (this\<lparr>nvelocity := rotateVector_n newVelocity1 (neg angle)\<rparr>,
                   other\<lparr>nvelocity := rotateVector_n newVelocity2 (neg angle)\<rparr>)))"

definition updatePosition_n :: "nparticle \<Rightarrow> nparticle" where
  "updatePosition_n p =
     (let p1 = p\<lparr>nvelocity := (nvelocity p)\<lparr>nvx := mul (nvx (nvelocity p)) (nfriction p)\<rparr>\<rparr>;
          p2 = p1\<lparr>nvelocity := (nvelocity p1)\<lparr>nvy := mul (nvy (nvelocity p1)) (nfriction p1)\<rparr>\<rparr>;
          p3 = p2\<lparr>npx := add (npx p2) (nvx (nvelocity p2))\<rparr>
      in p3\<lparr>npy := add (npy p3) (nvy (nvelocity p3))\<rparr>)"

definition collide_n :: "nat \<Rightarrow> nat \<Rightarrow> nparticle list \<Rightarrow> nparticle list" where
  "collide_n i j ps = (let (p, q) = handleCollision_n (ps ! i) (ps ! j) in (ps[i := p])[j := q])"

definition collideAll_n :: "nat \<Rightarrow> nparticle list \<Rightarrow> nparticle list" where
  "collideAll_n i ps = fold (\<lambda>j qs. if j \<noteq> i then collide_n i j qs else qs) [0..<length ps] ps"

definition update_n :: "physics \<Rightarrow> nat \<Rightarrow> nworld \<Rightarrow> nworld" where
  "update_n cfg i w =
     (let ps1 = (nparticles w)[i := repelFromMouse_n cfg (nmouse w) (nparticles w ! i)];
          ps2 = collideAll_n i ps1;
          ps3 = ps2[i := updatePosition_n (ps2 ! i)];
          ps4 = ps3[i := handleWallCollisions_n cfg (nWidth w) (nHeight w) (ps3 ! i)]
      in w\<lparr>nparticles := ps4\<rparr>)"

definition animate_n :: "physics \<Rightarrow> nworld \<Rightarrow> nworld" where
  "animate_n cfg w = fold (update_n cfg) [0..<length (nparticles w)] w"

definition still_n :: "nparticle \<Rightarrow> nparticle" where
  "still_n p = p\<lparr>nvelocity := \<lparr>nvx = NaN, nvy = NaN\<rparr>\<rparr>"

text \<open>
  Where a coordinate may be: \<open>NaN\<close>, or a number between \<open>lo\<close> and \<open>hi\<close>.
\<close>

definition nan_or_within :: "real \<Rightarrow> real \<Rightarrow> number \<Rightarrow> bool" where
  "nan_or_within lo hi x = (case x of Num r \<Rightarrow> lo \<le> r \<and> r \<le> hi | NaN \<Rightarrow> True | PInf \<Rightarrow> False | MInf \<Rightarrow> False)"

text \<open>Both coordinates \<open>NaN\<close> or in range.\<close>

definition inside_n :: "real \<Rightarrow> real \<Rightarrow> real \<Rightarrow> nparticle \<Rightarrow> bool" where
  "inside_n s w h p = (nan_or_within s (w - s) (npx p) \<and> nan_or_within s (h - s) (npy p))"

subsection \<open>A velocity about to overflow\<close>

text \<open>
  A finite double, half of \<open>2^1024\<close>: doubling it overflows. Two overlapping discs, the
  first at rest and the second with this x-velocity, in a container of 400 by 300.
\<close>

definition HUGE :: real where
  "HUGE = 2 ^ 1023"

definition slow :: nparticle where
  "slow = \<lparr>npx = Num 100, npy = Num 100, nsize = Num 20, nmass = Num 40, nfriction = Num (995 / 1000),
           nvelocity = \<lparr>nvx = Num 0, nvy = Num 0\<rparr>\<rparr>"

definition fast :: nparticle where
  "fast = \<lparr>npx = Num 130, npy = Num 100, nsize = Num 20, nmass = Num 40, nfriction = Num (995 / 1000),
           nvelocity = \<lparr>nvx = Num HUGE, nvy = Num 0\<rparr>\<rparr>"

definition runaway_world :: nworld where
  "runaway_world = \<lparr>nWidth = Num 400, nHeight = Num 300, nmouse = None, nparticles = [slow, fast]\<rparr>"

text \<open>The first disc after the collision, its move and the walls.\<close>

definition slow_hit :: nparticle where
  "slow_hit = \<lparr>npx = Num 380, npy = NaN, nsize = Num 20, nmass = Num 40, nfriction = Num (995 / 1000),
           nvelocity = \<lparr>nvx = MInf, nvy = NaN\<rparr>\<rparr>"

section \<open>Resizing\<close>






section \<open>Distances, angles and rotations\<close>

lemma distance_nonneg: "0 \<le> distance x1 y1 x2 y2"
  by (simp add: distance_def)

lemma distance_same [simp]: "distance x y x y = 0"
  by (simp add: distance_def)

lemma distance_pos_iff: "0 < distance x1 y1 x2 y2 \<longleftrightarrow> x2 \<noteq> x1 \<or> y2 \<noteq> y1"
  by (auto simp add: distance_def sum_power2_gt_zero_iff)

lemma distance_commute: "distance x1 y1 x2 y2 = distance x2 y2 x1 y1"
  by (simp add: distance_def power2_commute)

lemma distance_horizontal: "distance x1 y x2 y = \<bar>x2 - x1\<bar>"
  by (simp add: distance_def)

lemma cos_sin_atan2:
  assumes "x \<noteq> 0 \<or> y \<noteq> 0"
  shows "cos (atan2 y x) = x / sqrt (x\<^sup>2 + y\<^sup>2)" and "sin (atan2 y x) = y / sqrt (x\<^sup>2 + y\<^sup>2)"
proof -
  have key: "sqrt (x\<^sup>2 + y\<^sup>2) = \<bar>x\<bar> * sqrt (1 + (y / x)\<^sup>2)" if "x \<noteq> 0"
  proof -
    have "x\<^sup>2 + y\<^sup>2 = x\<^sup>2 * (1 + (y / x)\<^sup>2)"
      using that by (simp add: field_simps power2_eq_square)
    then show ?thesis by (simp add: real_sqrt_mult)
  qed
  have pos: "0 < sqrt (1 + (y / x)\<^sup>2)"
    by (simp add: add_pos_nonneg)
  show "cos (atan2 y x) = x / sqrt (x\<^sup>2 + y\<^sup>2)"
  proof (cases "x = 0")
    case True
    with assms show ?thesis by (auto simp add: atan2_def)
  next
    case False
    with pos show ?thesis
      by (auto simp add: atan2_def cos_arctan key field_simps)
  qed
  show "sin (atan2 y x) = y / sqrt (x\<^sup>2 + y\<^sup>2)"
  proof (cases "x = 0")
    case True
    with assms show ?thesis by (auto simp add: atan2_def)
  next
    case False
    with pos show ?thesis
      by (auto simp add: atan2_def sin_arctan key field_simps)
  qed
qed

text \<open>The angle from (x1, y1) to (x2, y2), in terms of the distance.\<close>

lemma cos_sin_direction:
  assumes "0 < distance x1 y1 x2 y2"
  shows "cos (atan2 (y2 - y1) (x2 - x1)) = (x2 - x1) / distance x1 y1 x2 y2"
    and "sin (atan2 (y2 - y1) (x2 - x1)) = (y2 - y1) / distance x1 y1 x2 y2"
proof -
  from assms have "x2 - x1 \<noteq> 0 \<or> y2 - y1 \<noteq> 0"
    by (auto simp add: distance_pos_iff)
  from cos_sin_atan2 [OF this] show
    "cos (atan2 (y2 - y1) (x2 - x1)) = (x2 - x1) / distance x1 y1 x2 y2"
    "sin (atan2 (y2 - y1) (x2 - x1)) = (y2 - y1) / distance x1 y1 x2 y2"
    by (simp_all add: distance_def)
qed

lemma unit_scale:
  fixes a c s :: real
  assumes "c * c + s * s = 1"
  shows "a * (c * c) + a * (s * s) = a"
proof -
  have "a * (c * c) + a * (s * s) = a * (c * c + s * s)" by (simp add: distrib_left)
  with assms show ?thesis by simp
qed

lemma rotateVector_back: "rotateVector (rotateVector v (- a)) a = v"
proof -
  have cs: "cos a * cos a + sin a * sin a = 1"
    using sin_cos_squared_add2 [of a] by (simp add: power2_eq_square)
  show ?thesis
    by (simp add: rotateVector_def algebra_simps unit_scale [OF cs])
qed

lemma rotateVector_components:
  "vx (rotateVector v a) = vx v * cos a - vy v * sin a"
  "vy (rotateVector v a) = vx v * sin a + vy v * cos a"
  by (simp_all add: rotateVector_def)

lemma handleCollision_overlap:
  assumes "0 < distance (px p) (py p) (px q) (py q)"
    and "distance (px p) (py p) (px q) (py q) < psize p + psize q"
  shows "handleCollision p q =
    (let angle = - atan2 (py q - py p) (px q - px p);
         velocity1 = rotateVector (velocity p) angle;
         velocity2 = rotateVector (velocity q) angle
     in (p\<lparr>velocity := rotateVector (calculateCollisionVelocity velocity1 velocity2 (mass p) (mass q)) (- angle)\<rparr>,
         q\<lparr>velocity := rotateVector (calculateCollisionVelocity velocity2 velocity1 (mass q) (mass p)) (- angle)\<rparr>))"
  using assms by (simp add: handleCollision_def Let_def)




section \<open>Collision of two particles\<close>



subsection \<open>Resolving the same pair again\<close>

text \<open>
  The elastic update reverses the relative velocity along the line of centres. Applied
  again to the same pair at the same positions, from the other side, it gives both
  particles their old velocities back.
\<close>

lemma twice_numerator:
  fixes x y m1 m2 :: real
  shows "(x * (m1 - m2) + y * 2 * m2) * (m1 - m2) + (y * (m2 - m1) + x * 2 * m1) * (2 * m2)
         = x * ((m1 + m2) * (m1 + m2))"
  by (simp add: algebra_simps)

lemma twice_quotient:
  fixes A B c e M :: real
  assumes "M \<noteq> 0"
  shows "(A / M * c + B / M * e) / M = (A * c + B * e) / (M * M)"
  using assms by (simp add: field_simps)

lemma calculateCollisionVelocity_twice:
  assumes "m1 + m2 \<noteq> 0"
  shows "calculateCollisionVelocity (calculateCollisionVelocity v1 v2 m1 m2)
           (calculateCollisionVelocity v2 v1 m2 m1) m1 m2 = v1"
proof (rule vector.equality)
  define M where "M = m1 + m2"
  have M: "M \<noteq> 0" "m2 + m1 = M" "m1 + m2 = M" using assms by (simp_all add: M_def)
  have "vx (calculateCollisionVelocity (calculateCollisionVelocity v1 v2 m1 m2)
           (calculateCollisionVelocity v2 v1 m2 m1) m1 m2)
        = ((vx v1 * (m1 - m2) + vx v2 * 2 * m2) / M * (m1 - m2)
          + (vx v2 * (m2 - m1) + vx v1 * 2 * m1) / M * (2 * m2)) / M"
    by (simp only: calculateCollisionVelocity_def vector.select_convs M mult.assoc)
  also have "\<dots> = ((vx v1 * (m1 - m2) + vx v2 * 2 * m2) * (m1 - m2)
          + (vx v2 * (m2 - m1) + vx v1 * 2 * m1) * (2 * m2)) / (M * M)"
    by (rule twice_quotient [OF M(1)])
  also have "\<dots> = (vx v1 * (M * M)) / (M * M)"
    unfolding twice_numerator M_def by (rule refl)
  also have "\<dots> = vx v1" using M(1) by simp
  finally show "vx (calculateCollisionVelocity (calculateCollisionVelocity v1 v2 m1 m2)
           (calculateCollisionVelocity v2 v1 m2 m1) m1 m2) = vx v1" .
  show "vy (calculateCollisionVelocity (calculateCollisionVelocity v1 v2 m1 m2)
           (calculateCollisionVelocity v2 v1 m2 m1) m1 m2) = vy v1"
    by (simp add: calculateCollisionVelocity_def)
  show "vector.more (calculateCollisionVelocity (calculateCollisionVelocity v1 v2 m1 m2)
           (calculateCollisionVelocity v2 v1 m2 m1) m1 m2) = vector.more v1"
    by simp
qed

lemma negated_difference:
  fixes x y d :: real
  shows "(x - y) / d = - ((y - x) / d)"
  by (simp add: diff_divide_distrib)

lemma rotateVector_negated:
  assumes "cos b = - cos a" and "sin b = - sin a"
  shows "rotateVector v b = \<lparr>vx = - vx (rotateVector v a), vy = - vy (rotateVector v a)\<rparr>"
  by (simp add: rotateVector_def assms)

lemma calculateCollisionVelocity_negated:
  "calculateCollisionVelocity \<lparr>vx = - vx v1, vy = - vy v1\<rparr> \<lparr>vx = - vx v2, vy = - vy v2\<rparr> m1 m2
   = \<lparr>vx = - vx (calculateCollisionVelocity v1 v2 m1 m2), vy = - vy (calculateCollisionVelocity v1 v2 m1 m2)\<rparr>"
proof -
  have "- vx v1 * (m1 - m2) + - vx v2 * 2 * m2 = - (vx v1 * (m1 - m2) + vx v2 * 2 * m2)"
    by (simp add: algebra_simps)
  then show ?thesis
    by (simp only: calculateCollisionVelocity_def vector.simps minus_divide_left)
qed

lemma rotateVector_negated_twice:
  "\<lparr>vx = - vx (rotateVector \<lparr>vx = - vx u, vy = - vy u\<rparr> t),
    vy = - vy (rotateVector \<lparr>vx = - vx u, vy = - vy u\<rparr> t)\<rparr> = rotateVector u t"
  by (simp add: rotateVector_def)

lemma rotateVector_forth: "rotateVector (rotateVector v a) (- a) = v"
  using rotateVector_back [of v "- a"] by simp

lemma second_resolution_undoes_first:
  assumes "0 < distance (px p) (py p) (px q) (py q)"
    and "distance (px p) (py p) (px q) (py q) < psize p + psize q"
    and "mass p + mass q \<noteq> 0"
  shows "handleCollision (snd (handleCollision p q)) (fst (handleCollision p q)) = (q, p)"
proof -
  define a where "a = - atan2 (py q - py p) (px q - px p)"
  define b where "b = - atan2 (py p - py q) (px p - px q)"
  define u1 where "u1 = rotateVector (velocity p) a"
  define u2 where "u2 = rotateVector (velocity q) a"
  define n1 where "n1 = calculateCollisionVelocity u1 u2 (mass p) (mass q)"
  define n2 where "n2 = calculateCollisionVelocity u2 u1 (mass q) (mass p)"
  define p' where "p' = p\<lparr>velocity := rotateVector n1 (- a)\<rparr>"
  define q' where "q' = q\<lparr>velocity := rotateVector n2 (- a)\<rparr>"
  have hc: "handleCollision p q = (p', q')"
    using assms(1,2) by (simp add: handleCollision_overlap Let_def a_def u1_def u2_def n1_def n2_def p'_def q'_def)
  have rev: "0 < distance (px q) (py q) (px p) (py p)"
    "distance (px q) (py q) (px p) (py p) < psize q + psize p"
    using assms(1,2) by (simp_all add: distance_commute [of "px q"] add.commute)
  have cs: "cos b = - cos a" "sin b = - sin a"
    using cos_sin_direction [OF assms(1)] cos_sin_direction [OF rev(1)]
    by (simp_all add: a_def b_def distance_commute [of "px q"] negated_difference [of "px p"]
        negated_difference [of "py p"])
  have cs': "cos (- b) = - cos (- a)" "sin (- b) = - sin (- a)"
    using cs by simp_all
  have v1: "rotateVector (velocity q') b = \<lparr>vx = - vx n2, vy = - vy n2\<rparr>"
    and v2: "rotateVector (velocity p') b = \<lparr>vx = - vx n1, vy = - vy n1\<rparr>"
    by (simp_all add: rotateVector_negated [OF cs] p'_def q'_def rotateVector_back)
  have again: "calculateCollisionVelocity n1 n2 (mass p) (mass q) = u1"
    "calculateCollisionVelocity n2 n1 (mass q) (mass p) = u2"
    unfolding n1_def n2_def
    using calculateCollisionVelocity_twice [OF assms(3), of u1 u2]
      calculateCollisionVelocity_twice [of "mass q" "mass p" u2 u1] assms(3)
    by (simp_all add: add.commute)
  have "handleCollision q' p' =
    (q'\<lparr>velocity := rotateVector (calculateCollisionVelocity (rotateVector (velocity q') b)
                        (rotateVector (velocity p') b) (mass q') (mass p')) (- b)\<rparr>,
     p'\<lparr>velocity := rotateVector (calculateCollisionVelocity (rotateVector (velocity p') b)
                        (rotateVector (velocity q') b) (mass p') (mass q')) (- b)\<rparr>)"
  proof -
    have ov: "0 < distance (px q') (py q') (px p') (py p')"
      "distance (px q') (py q') (px p') (py p') < psize q' + psize p'"
      using rev by (simp_all add: p'_def q'_def)
    have b': "- atan2 (py p' - py q') (px p' - px q') = b"
      by (simp add: b_def p'_def q'_def)
    show ?thesis
      unfolding handleCollision_overlap [OF ov] Let_def b' by (rule refl)
  qed
  also have "\<dots> = (q'\<lparr>velocity := rotateVector u2 (- a)\<rparr>, p'\<lparr>velocity := rotateVector u1 (- a)\<rparr>)"
    unfolding v1 v2 calculateCollisionVelocity_negated
    by (simp add: rotateVector_negated [OF cs'] again p'_def q'_def rotateVector_negated_twice)
  also have "\<dots> = (q, p)"
    by (simp add: u1_def u2_def rotateVector_forth p'_def q'_def)
  finally show ?thesis by (simp add: hc)
qed

section \<open>Repulsion from the mouse\<close>

lemma applyForce_eq:
  "applyForce fx fy p = p\<lparr>velocity := \<lparr>vx = vx (velocity p) + fx, vy = vy (velocity p) + fy\<rparr>\<rparr>"
  by (simp add: applyForce_def Let_def)

lemma unit_direction:
  assumes "0 < distance x1 y1 x2 y2"
  shows "((x2 - x1) / distance x1 y1 x2 y2)\<^sup>2 + ((y2 - y1) / distance x1 y1 x2 y2)\<^sup>2 = 1"
proof -
  have "(distance x1 y1 x2 y2)\<^sup>2 = (x2 - x1)\<^sup>2 + (y2 - y1)\<^sup>2"
    by (simp add: distance_def)
  moreover from assms have "(distance x1 y1 x2 y2)\<^sup>2 \<noteq> 0" by simp
  ultimately show ?thesis
    by (simp add: power_divide add_divide_distrib [symmetric])
qed

text \<open>
  Claim C7. Without a mouse position \<open>repelFromMouse\<close> returns the particle as it is, and
  so it does when the distance \<open>d\<close> to the mouse is not in \<open>(0, REPULSION_RADIUS)\<close>. When
  it is, only the velocity changes: the vector added is
  \<open>(REPULSION_RADIUS - d) / REPULSION_RADIUS * REPULSION_FORCE\<close> times the unit vector
  from the mouse to the particle, so it has that magnitude and points from the mouse
  towards the particle (the repulsion force of the configuration being non-negative, as
  the shipped 3 is).
\<close>

theorem repelFromMouse_effect:
  assumes "0 \<le> REPULSION_FORCE cfg"
  shows "repelFromMouse cfg None p = p \<and>
    (\<forall>ms. let d = distance (px p) (py p) (vx ms) (vy ms);
               R = REPULSION_RADIUS cfg;
               force = ((R - d) / R) * REPULSION_FORCE cfg;
               dvx = force * ((px p - vx ms) / d);
               dvy = force * ((py p - vy ms) / d)
           in (\<not> (0 < d \<and> d < R) \<longrightarrow> repelFromMouse cfg (Some ms) p = p) \<and>
              (0 < d \<and> d < R \<longrightarrow>
                 repelFromMouse cfg (Some ms) p
                   = p\<lparr>velocity := \<lparr>vx = vx (velocity p) + dvx, vy = vy (velocity p) + dvy\<rparr>\<rparr> \<and>
                 sqrt (dvx\<^sup>2 + dvy\<^sup>2) = force \<and> 0 \<le> force / d))"
proof -
  have "repelFromMouse cfg None p = p" by (simp add: repelFromMouse_def)
  moreover have "let d = distance (px p) (py p) (vx ms) (vy ms);
               R = REPULSION_RADIUS cfg;
               force = ((R - d) / R) * REPULSION_FORCE cfg;
               dvx = force * ((px p - vx ms) / d);
               dvy = force * ((py p - vy ms) / d)
           in (\<not> (0 < d \<and> d < R) \<longrightarrow> repelFromMouse cfg (Some ms) p = p) \<and>
              (0 < d \<and> d < R \<longrightarrow>
                 repelFromMouse cfg (Some ms) p
                   = p\<lparr>velocity := \<lparr>vx = vx (velocity p) + dvx, vy = vy (velocity p) + dvy\<rparr>\<rparr> \<and>
                 sqrt (dvx\<^sup>2 + dvy\<^sup>2) = force \<and> 0 \<le> force / d)" for ms
  proof -
    define d where "d = distance (px p) (py p) (vx ms) (vy ms)"
    define force where "force = ((REPULSION_RADIUS cfg - d) / REPULSION_RADIUS cfg) * REPULSION_FORCE cfg"
    have out: "repelFromMouse cfg (Some ms) p = p" if "\<not> (0 < d \<and> d < REPULSION_RADIUS cfg)"
      using that by (auto simp add: repelFromMouse_def Let_def d_def)
    have inside: "repelFromMouse cfg (Some ms) p
                   = p\<lparr>velocity := \<lparr>vx = vx (velocity p) + force * ((px p - vx ms) / d),
                                    vy = vy (velocity p) + force * ((py p - vy ms) / d)\<rparr>\<rparr>"
      and mag: "sqrt ((force * ((px p - vx ms) / d))\<^sup>2 + (force * ((py p - vy ms) / d))\<^sup>2) = force"
      and dir: "0 \<le> force / d"
      if range: "0 < d \<and> d < REPULSION_RADIUS cfg"
    proof -
      from range have dpos: "0 < distance (vx ms) (vy ms) (px p) (py p)"
        by (simp add: d_def distance_def power2_commute)
      have dd: "distance (vx ms) (vy ms) (px p) (py p) = d"
        by (simp add: d_def distance_def power2_commute)
      from range have "0 \<le> (REPULSION_RADIUS cfg - d) / REPULSION_RADIUS cfg" by simp
      from this assms have fpos: "0 \<le> force" unfolding force_def by (rule mult_nonneg_nonneg)
      with range show "0 \<le> force / d" by simp
      show "repelFromMouse cfg (Some ms) p
                   = p\<lparr>velocity := \<lparr>vx = vx (velocity p) + force * ((px p - vx ms) / d),
                                    vy = vy (velocity p) + force * ((py p - vy ms) / d)\<rparr>\<rparr>"
      proof -
        have "repelFromMouse cfg (Some ms) p
              = applyForce (cos (atan2 (py p - vy ms) (px p - vx ms)) * force)
                  (sin (atan2 (py p - vy ms) (px p - vx ms)) * force) p"
          using range by (simp add: repelFromMouse_def Let_def d_def force_def)
        then show ?thesis
          using cos_sin_direction [OF dpos] by (simp add: applyForce_eq dd mult.commute)
      qed
      have "(force * ((px p - vx ms) / d))\<^sup>2 + (force * ((py p - vy ms) / d))\<^sup>2
            = force\<^sup>2 * (((px p - vx ms) / d)\<^sup>2 + ((py p - vy ms) / d)\<^sup>2)"
        by (simp only: power_mult_distrib distrib_left)
      also have "\<dots> = force\<^sup>2"
        using unit_direction [OF dpos] by (simp add: dd)
      finally show "sqrt ((force * ((px p - vx ms) / d))\<^sup>2 + (force * ((py p - vy ms) / d))\<^sup>2) = force"
        using fpos by simp
    qed
    show ?thesis
      unfolding Let_def d_def [symmetric] force_def [symmetric]
      using out inside mag dir by blast
  qed
  ultimately show ?thesis by blast
qed

theorem repelFromMouse_effect_witness:
  "0 \<le> REPULSION_FORCE PHYSICS \<and>
   0 < distance (px ball0) (py ball0) 40 100 \<and>
   distance (px ball0) (py ball0) 40 100 < REPULSION_RADIUS PHYSICS \<and>
   repelFromMouse PHYSICS (Some \<lparr>vx = 40, vy = 100\<rparr>) ball0
     = ball0\<lparr>velocity := \<lparr>vx = 14 / 5, vy = 0\<rparr>\<rparr>"
  using repelFromMouse_effect [of PHYSICS ball0, THEN conjunct2, THEN spec, of "\<lparr>vx = 40, vy = 100\<rparr>"]
  by (simp add: PHYSICS_def ball0_def distance_horizontal Let_def)

section \<open>What a collision leaves alone\<close>

lemma still_fields [simp]:
  "px (still p) = px p" "py (still p) = py p" "psize (still p) = psize p"
  "mass (still p) = mass p" "friction (still p) = friction p"
  by (simp_all add: still_def)

lemma still_eqD:
  assumes "still p = still q"
  shows "px p = px q" "py p = py q" "psize p = psize q" "mass p = mass q" "friction p = friction q"
  using still_fields [of p] still_fields [of q] assms by simp_all

lemma still_handleCollision:
  "still (fst (handleCollision p q)) = still p" "still (snd (handleCollision p q)) = still q"
  by (simp_all add: handleCollision_def Let_def still_def)

lemma collide_eq:
  "collide i j ps = (ps[i := fst (handleCollision (ps ! i) (ps ! j))])[j := snd (handleCollision (ps ! i) (ps ! j))]"
  by (simp add: collide_def split_beta)

lemma length_collide [simp]: "length (collide i j ps) = length ps"
  by (simp add: collide_eq)

lemma collide_nth_other: "k \<noteq> i \<Longrightarrow> k \<noteq> j \<Longrightarrow> collide i j ps ! k = ps ! k"
  by (simp add: collide_eq)

lemma still_collide_nth:
  assumes "k < length ps"
  shows "still (collide i j ps ! k) = still (ps ! k)"
proof -
  consider "k = j" | "k \<noteq> j" "k = i" | "k \<noteq> i" "k \<noteq> j" by blast
  then show ?thesis
  proof cases
    case 1 with assms show ?thesis by (simp add: collide_eq still_handleCollision)
  next
    case 2 with assms show ?thesis by (simp add: collide_eq still_handleCollision)
  next
    case 3 then show ?thesis by (simp add: collide_nth_other)
  qed
qed

lemma map_still_collide: "map still (collide i j ps) = map still ps"
  by (rule nth_equalityI) (simp_all add: still_collide_nth)

text \<open>
  Claim C10. \<open>handleCollision\<close> returns both particles with their position, size, mass
  and friction as they were: only the two velocities can differ, so overlapping
  particles are not moved apart. In the array, a call for the indices \<open>i\<close> and \<open>j\<close> keeps
  the length, leaves every particle at another index exactly as it was, and leaves
  position, size, mass and friction at every index as they were.
\<close>

theorem collide_changes_velocities_only:
  "px (fst (handleCollision p q)) = px p \<and> py (fst (handleCollision p q)) = py p \<and>
   psize (fst (handleCollision p q)) = psize p \<and> mass (fst (handleCollision p q)) = mass p \<and>
   friction (fst (handleCollision p q)) = friction p \<and>
   px (snd (handleCollision p q)) = px q \<and> py (snd (handleCollision p q)) = py q \<and>
   psize (snd (handleCollision p q)) = psize q \<and> mass (snd (handleCollision p q)) = mass q \<and>
   friction (snd (handleCollision p q)) = friction q \<and>
   length (collide i j ps) = length ps \<and>
   (\<forall>k < length ps.
      (k \<noteq> i \<and> k \<noteq> j \<longrightarrow> collide i j ps ! k = ps ! k) \<and>
      px (collide i j ps ! k) = px (ps ! k) \<and> py (collide i j ps ! k) = py (ps ! k) \<and>
      psize (collide i j ps ! k) = psize (ps ! k) \<and> mass (collide i j ps ! k) = mass (ps ! k) \<and>
      friction (collide i j ps ! k) = friction (ps ! k))"
  using still_eqD [OF still_handleCollision(1) [of p q]] still_eqD [OF still_handleCollision(2) [of p q]]
    still_eqD [OF still_collide_nth [of _ ps i j]]
  by (simp add: collide_nth_other)

theorem collide_changes_velocities_only_witness:
  "(2::nat) < length [ball0, ball1, scenario_body] \<and> (2::nat) \<noteq> 0 \<and> (2::nat) \<noteq> 1 \<and>
   collide 0 1 [ball0, ball1, scenario_body] ! 2 = scenario_body \<and>
   px (collide 0 1 [ball0, ball1, scenario_body] ! 0) = 100 \<and>
   px (collide 0 1 [ball0, ball1, scenario_body] ! 1) = 130"
  using collide_changes_velocities_only [of ball0 ball1 0 1 "[ball0, ball1, scenario_body]"]
  by (simp add: ball0_def ball1_def)

section \<open>One frame\<close>

lemma collide_fold_still:
  "map still (fold (\<lambda>j qs. if j \<noteq> i then collide i j qs else qs) js ps) = map still ps"
  by (induction js arbitrary: ps) (simp_all add: map_still_collide)

lemma map_still_collideAll: "map still (collideAll i ps) = map still ps"
  by (simp add: collideAll_def collide_fold_still)

lemma length_collideAll [simp]: "length (collideAll i ps) = length ps"
  using arg_cong [OF map_still_collideAll [of i ps], of length] by simp

lemma still_collideAll_nth: "k < length ps \<Longrightarrow> still (collideAll i ps ! k) = still (ps ! k)"
  using arg_cong [OF map_still_collideAll [of i ps], of "\<lambda>xs. xs ! k"] by simp

lemma still_repelFromMouse [simp]: "still (repelFromMouse cfg m p) = still p"
  by (simp add: repelFromMouse_def still_def applyForce_def Let_def split: option.split)

lemma update_frame [simp]:
  "length (particles (update cfg i w)) = length (particles w)"
  "containerWidth (update cfg i w) = containerWidth w"
  "containerHeight (update cfg i w) = containerHeight w"
  "mouse (update cfg i w) = mouse w"
  by (simp_all add: update_def Let_def)

text \<open>What \<open>update\<close> does to the particle it is called on, and to the others.\<close>

lemma update_nth_self:
  assumes "i < length (particles w)"
  shows "particles (update cfg i w) ! i
         = handleWallCollisions cfg (containerWidth w) (containerHeight w)
             (updatePosition (collideAll i ((particles w)[i := repelFromMouse cfg (mouse w) (particles w ! i)]) ! i))"
  using assms by (simp add: update_def Let_def)

lemma update_nth_other:
  assumes "k \<noteq> i"
  shows "particles (update cfg i w) ! k
         = collideAll i ((particles w)[i := repelFromMouse cfg (mouse w) (particles w ! i)]) ! k"
  using assms by (simp add: update_def Let_def)

lemma still_update_other:
  assumes "k \<noteq> i" "k < length (particles w)"
  shows "still (particles (update cfg i w) ! k) = still (particles w ! k)"
  using assms by (simp add: update_nth_other still_collideAll_nth)

lemma psize_updatePosition [simp]: "psize (updatePosition p) = psize p"
  by (simp add: updatePosition_def Let_def)

lemma handleWallCollisions_walls:
  "handleWallCollisions cfg W H p = bottomWall cfg H (topWall cfg (rightWall cfg W (leftWall cfg p)))"
  unfolding handleWallCollisions_def Let_def leftWall_def rightWall_def topWall_def bottomWall_def
  by (rule refl)

lemma leftWall_fields [simp]:
  "psize (leftWall cfg p) = psize p" "py (leftWall cfg p) = py p"
  "mass (leftWall cfg p) = mass p" "friction (leftWall cfg p) = friction p"
  "vy (velocity (leftWall cfg p)) = vy (velocity p)"
  "px (leftWall cfg p) = (if px p - psize p \<le> 0 then psize p else px p)"
  "vx (velocity (leftWall cfg p)) = (if px p - psize p \<le> 0 then \<bar>vx (velocity p)\<bar> * BOUNCE_ENERGY cfg else vx (velocity p))"
  by (simp_all add: leftWall_def)

lemma rightWall_fields [simp]:
  "psize (rightWall cfg W p) = psize p" "py (rightWall cfg W p) = py p"
  "mass (rightWall cfg W p) = mass p" "friction (rightWall cfg W p) = friction p"
  "vy (velocity (rightWall cfg W p)) = vy (velocity p)"
  "px (rightWall cfg W p) = (if px p + psize p \<ge> W then W - psize p else px p)"
  "vx (velocity (rightWall cfg W p)) = (if px p + psize p \<ge> W then - \<bar>vx (velocity p)\<bar> * BOUNCE_ENERGY cfg else vx (velocity p))"
  by (simp_all add: rightWall_def)

lemma topWall_fields [simp]:
  "psize (topWall cfg p) = psize p" "px (topWall cfg p) = px p"
  "mass (topWall cfg p) = mass p" "friction (topWall cfg p) = friction p"
  "vx (velocity (topWall cfg p)) = vx (velocity p)"
  "py (topWall cfg p) = (if py p - psize p \<le> 0 then psize p else py p)"
  "vy (velocity (topWall cfg p)) = (if py p - psize p \<le> 0 then \<bar>vy (velocity p)\<bar> * BOUNCE_ENERGY cfg else vy (velocity p))"
  by (simp_all add: topWall_def)

lemma bottomWall_fields [simp]:
  "psize (bottomWall cfg H p) = psize p" "px (bottomWall cfg H p) = px p"
  "mass (bottomWall cfg H p) = mass p" "friction (bottomWall cfg H p) = friction p"
  "vx (velocity (bottomWall cfg H p)) = vx (velocity p)"
  "py (bottomWall cfg H p) = (if py p + psize p \<ge> H then H - psize p else py p)"
  "vy (velocity (bottomWall cfg H p)) = (if py p + psize p \<ge> H then - \<bar>vy (velocity p)\<bar> * BOUNCE_ENERGY cfg else vy (velocity p))"
  by (simp_all add: bottomWall_def)

lemma handleWallCollisions_inside:
  "2 * psize p \<le> W \<Longrightarrow>
     psize p \<le> px (handleWallCollisions cfg W H p) \<and> px (handleWallCollisions cfg W H p) \<le> W - psize p"
  "2 * psize p \<le> H \<Longrightarrow>
     psize p \<le> py (handleWallCollisions cfg W H p) \<and> py (handleWallCollisions cfg W H p) \<le> H - psize p"
  by (simp_all add: handleWallCollisions_walls)

lemma updatePosition_eq:
  "updatePosition p = p\<lparr>velocity := \<lparr>vx = vx (velocity p) * friction p, vy = vy (velocity p) * friction p\<rparr>,
      px := px p + vx (velocity p) * friction p, py := py p + vy (velocity p) * friction p\<rparr>"
  by (simp add: updatePosition_def Let_def)

lemma collideAll_single [simp]: "collideAll 0 [p] = [p]"
  by (simp add: collideAll_def)

lemma animate_single:
  "animate cfg (w\<lparr>particles := [p]\<rparr>)
   = w\<lparr>particles := [handleWallCollisions cfg (containerWidth w) (containerHeight w)
                        (updatePosition (repelFromMouse cfg (mouse w) p))]\<rparr>"
  by (simp add: animate_def update_def Let_def)

lemma scenario_step:
  "particles (animate cfg scenario_world)
     = [\<lparr>px = 20, py = 150, psize = 20, mass = 40, friction = 1,
         velocity = \<lparr>vx = 3 * BOUNCE_ENERGY cfg, vy = 0\<rparr>\<rparr>]"
proof -
  have w: "scenario_world = scenario_world\<lparr>particles := [scenario_body]\<rparr>"
    by (simp add: scenario_world_def)
  have m: "mouse scenario_world = None" "containerWidth scenario_world = 400" "containerHeight scenario_world = 300"
    by (simp_all add: scenario_world_def)
  have u: "updatePosition scenario_body = \<lparr>px = 7, py = 150, psize = 20, mass = 40, friction = 1,
         velocity = \<lparr>vx = - 3, vy = 0\<rparr>\<rparr>"
    by (simp add: updatePosition_eq scenario_body_def)
  have "animate cfg scenario_world = scenario_world\<lparr>particles :=
      [handleWallCollisions cfg 400 300 (updatePosition (repelFromMouse cfg None scenario_body))]\<rparr>"
    using animate_single [where cfg = cfg and w = scenario_world and p = scenario_body] w m by simp
  then show ?thesis
    by (simp add: repelFromMouse_def u handleWallCollisions_walls leftWall_def rightWall_def topWall_def bottomWall_def)
qed

section \<open>Bouncing off the left wall\<close>

text \<open>
  Claim C5, as the script has it. A particle narrower than the container
  (\<open>2 * size < W\<close>) whose left edge is at or beyond the left wall and whose x-velocity is
  negative leaves \<open>handleWallCollisions\<close> with the x-velocity \<open>|vx| * BOUNCE_ENERGY\<close>,
  which is positive for a positive \<open>BOUNCE_ENERGY\<close>, and with \<open>x = size\<close>. In the
  scenario (container 400 by 300, one body of radius 20 at (10, 150) with velocity
  (-3, 0), friction 1, no mouse) one frame ends with \<open>x = 20\<close> and
  \<open>velocity.x = 3 * BOUNCE_ENERGY\<close>.
\<close>

theorem left_wall_bounce:
  "(px p - psize p \<le> 0 \<and> vx (velocity p) < 0 \<and> 2 * psize p < W \<and> 0 < BOUNCE_ENERGY cfg \<longrightarrow>
      0 < vx (velocity (handleWallCollisions cfg W H p)) \<and>
      vx (velocity (handleWallCollisions cfg W H p)) = \<bar>vx (velocity p)\<bar> * BOUNCE_ENERGY cfg \<and>
      px (handleWallCollisions cfg W H p) = psize p) \<and>
   px (particles (animate cfg scenario_world) ! 0) = 20 \<and>
   vx (velocity (particles (animate cfg scenario_world) ! 0)) = 3 * BOUNCE_ENERGY cfg"
proof -
  have "0 < vx (velocity (handleWallCollisions cfg W H p)) \<and>
      vx (velocity (handleWallCollisions cfg W H p)) = \<bar>vx (velocity p)\<bar> * BOUNCE_ENERGY cfg \<and>
      px (handleWallCollisions cfg W H p) = psize p"
    if left: "px p - psize p \<le> 0" and v: "vx (velocity p) < 0"
      and fits: "2 * psize p < W" and e: "0 < BOUNCE_ENERGY cfg"
  proof -
    \<comment> \<open>the left wall is hit, and after it the right wall is not\<close>
    have l: "px (leftWall cfg p) = psize p"
      "vx (velocity (leftWall cfg p)) = \<bar>vx (velocity p)\<bar> * BOUNCE_ENERGY cfg"
      using left by simp_all
    have r: "rightWall cfg W (leftWall cfg p) = leftWall cfg p"
      using fits l(1) by (simp add: rightWall_def)
    have "0 < \<bar>vx (velocity p)\<bar> * BOUNCE_ENERGY cfg"
      using v e by (simp add: mult_neg_pos)
    then show ?thesis
      using left by (simp add: handleWallCollisions_walls r)
  qed
  moreover have "px (particles (animate cfg scenario_world) ! 0) = 20"
    "vx (velocity (particles (animate cfg scenario_world) ! 0)) = 3 * BOUNCE_ENERGY cfg"
    by (simp_all add: scenario_step)
  ultimately show ?thesis by blast
qed

theorem left_wall_bounce_witness:
  "px scenario_body - psize scenario_body \<le> 0 \<and> vx (velocity scenario_body) < 0 \<and>
   2 * psize scenario_body < 400 \<and> 0 < BOUNCE_ENERGY PHYSICS \<and>
   vx (velocity (handleWallCollisions PHYSICS 400 300 scenario_body)) = 63 / 20 \<and>
   px (handleWallCollisions PHYSICS 400 300 scenario_body) = 20"
  using left_wall_bounce [of scenario_body 400 PHYSICS 300]
  by (simp add: scenario_body_def PHYSICS_def)

text \<open>
  Without the bound on the size the right wall is hit as well. In a container of width
  30 the body of the scenario (radius 20, \<open>x = 10\<close>, x-velocity -3) is put at \<open>x = 20\<close> by
  the left wall and then, since \<open>20 + 20 \<ge> 30\<close>, at \<open>x = 10\<close> by the right wall, with the
  negative x-velocity \<open>-3 * 1.05 * 1.05\<close>.
\<close>

theorem left_wall_bounce_narrow_counterexample:
  "px scenario_body - psize scenario_body \<le> 0 \<and> vx (velocity scenario_body) < 0 \<and>
   vx (velocity (handleWallCollisions PHYSICS 30 300 scenario_body)) = - (1323 / 400) \<and>
   px (handleWallCollisions PHYSICS 30 300 scenario_body) = 10 \<and>
   \<not> (0 < vx (velocity (handleWallCollisions PHYSICS 30 300 scenario_body)) \<and>
      px (handleWallCollisions PHYSICS 30 300 scenario_body) = psize scenario_body)"
  by (simp add: handleWallCollisions_walls scenario_body_def PHYSICS_def)

section \<open>Particles stay inside the container\<close>

lemma inside_still: "still p = still q \<Longrightarrow> inside W H p = inside W H q"
  using still_eqD [of p q] by (simp add: inside_def)

lemma psize_still: "still p = still q \<Longrightarrow> psize p = psize q"
  by (rule still_eqD)

lemma psize_handleWallCollisions [simp]: "psize (handleWallCollisions cfg W H p) = psize p"
  by (simp add: handleWallCollisions_walls)

lemma psize_repelFromMouse [simp]: "psize (repelFromMouse cfg m p) = psize p"
  using psize_still [OF still_repelFromMouse] .

lemma psize_update_self:
  assumes "i < length (particles w)"
  shows "psize (particles (update cfg i w) ! i) = psize (particles w ! i)"
proof -
  let ?ps1 = "(particles w)[i := repelFromMouse cfg (mouse w) (particles w ! i)]"
  have "psize (collideAll i ?ps1 ! i) = psize (?ps1 ! i)"
    using assms by (intro psize_still still_collideAll_nth) simp
  with assms show ?thesis by (simp add: update_nth_self)
qed

lemma psize_update:
  assumes "k < length (particles w)"
  shows "psize (particles (update cfg i w) ! k) = psize (particles w ! k)"
proof (cases "k = i")
  case True with assms show ?thesis by (simp add: psize_update_self)
next
  case False with assms show ?thesis by (intro psize_still still_update_other)
qed

lemma update_self_inside:
  assumes "i < length (particles w)"
    and "2 * psize (particles w ! i) \<le> containerWidth w"
    and "2 * psize (particles w ! i) \<le> containerHeight w"
  shows "inside (containerWidth w) (containerHeight w) (particles (update cfg i w) ! i)"
proof -
  define ps1 where "ps1 = (particles w)[i := repelFromMouse cfg (mouse w) (particles w ! i)]"
  define q where "q = updatePosition (collideAll i ps1 ! i)"
  have "psize (collideAll i ps1 ! i) = psize (ps1 ! i)"
    using assms(1) by (intro psize_still still_collideAll_nth) (simp add: ps1_def)
  with assms(1) have q: "psize q = psize (particles w ! i)" by (simp add: q_def ps1_def)
  have p': "particles (update cfg i w) ! i = handleWallCollisions cfg (containerWidth w) (containerHeight w) q"
    unfolding q_def ps1_def using assms(1) by (rule update_nth_self)
  from assms(2) have "2 * psize q \<le> containerWidth w" by (simp add: q)
  note x = handleWallCollisions_inside(1) [OF this, of cfg "containerHeight w"]
  from assms(3) have "2 * psize q \<le> containerHeight w" by (simp add: q)
  note y = handleWallCollisions_inside(2) [OF this, of cfg "containerWidth w"]
  from x y show ?thesis
    unfolding p' inside_def by simp
qed

lemma fold_update_frame [simp]:
  "length (particles (fold (update cfg) js w)) = length (particles w)"
  "containerWidth (fold (update cfg) js w) = containerWidth w"
  "containerHeight (fold (update cfg) js w) = containerHeight w"
  "mouse (fold (update cfg) js w) = mouse w"
  by (induction js arbitrary: w) simp_all

lemma fold_update_psize:
  "k < length (particles w) \<Longrightarrow> psize (particles (fold (update cfg) js w) ! k) = psize (particles w ! k)"
  by (induction js arbitrary: w) (simp_all add: psize_update)

lemma fold_update_still_other:
  "k \<notin> set js \<Longrightarrow> k < length (particles w) \<Longrightarrow>
     still (particles (fold (update cfg) js w) ! k) = still (particles w ! k)"
  by (induction js arbitrary: w) (simp_all add: still_update_other)

lemma fold_update_inside:
  assumes "i \<in> set js" and "i < length (particles w)"
    and "2 * psize (particles w ! i) \<le> containerWidth w"
    and "2 * psize (particles w ! i) \<le> containerHeight w"
  shows "inside (containerWidth w) (containerHeight w) (particles (fold (update cfg) js w) ! i)"
  using assms(1)
proof (induction js rule: rev_induct)
  case Nil
  then show ?case by simp
next
  case (snoc j js)
  let ?w = "fold (update cfg) js w"
  have len: "i < length (particles ?w)" using assms(2) by simp
  have sz: "psize (particles ?w ! i) = psize (particles w ! i)"
    using assms(2) by (rule fold_update_psize)
  show ?case
  proof (cases "i = j")
    case True
    have "inside (containerWidth ?w) (containerHeight ?w) (particles (update cfg i ?w) ! i)"
      using len assms(3,4) by (intro update_self_inside) (simp_all add: sz)
    with True show ?thesis by simp
  next
    case False
    with snoc.prems have "i \<in> set js" by simp
    then have "inside (containerWidth w) (containerHeight w) (particles ?w ! i)"
      by (rule snoc.IH)
    moreover have "still (particles (update cfg j ?w) ! i) = still (particles ?w ! i)"
      using False len by (intro still_update_other)
    ultimately show ?thesis
      using inside_still [of "particles (update cfg j ?w) ! i" "particles ?w ! i"] by simp
  qed
qed

lemma animate_frame [simp]:
  "length (particles (animate cfg w)) = length (particles w)"
  "containerWidth (animate cfg w) = containerWidth w"
  "containerHeight (animate cfg w) = containerHeight w"
  "mouse (animate cfg w) = mouse w"
  by (simp_all add: animate_def)

lemma animate_psize:
  "k < length (particles w) \<Longrightarrow> psize (particles (animate cfg w) ! k) = psize (particles w ! k)"
  by (simp add: animate_def fold_update_psize)

lemma animate_inside:
  assumes "i < length (particles w)"
    and "2 * psize (particles w ! i) \<le> containerWidth w"
    and "2 * psize (particles w ! i) \<le> containerHeight w"
  shows "inside (containerWidth w) (containerHeight w) (particles (animate cfg w) ! i)"
  unfolding animate_def using assms by (intro fold_update_inside) simp_all

lemma frames_frame:
  "length (particles ((animate cfg ^^ n) w)) = length (particles w) \<and>
   containerWidth ((animate cfg ^^ n) w) = containerWidth w \<and>
   containerHeight ((animate cfg ^^ n) w) = containerHeight w \<and>
   (\<forall>k < length (particles w). psize (particles ((animate cfg ^^ n) w) ! k) = psize (particles w ! k))"
  by (induction n) (simp_all add: animate_psize)

text \<open>
  In exact arithmetic, from any state: a particle whose diameter fits in the container
  (\<open>2 * size\<close> at most the width and at most the height) has, after every frame,
  \<open>size \<le> x \<le> width - size\<close> and \<open>size \<le> y \<le> height - size\<close>. The frames change neither
  the container nor the number of particles nor their sizes.
\<close>

lemma animate_inside_exact:
  assumes "i < length (particles w)"
    and "2 * psize (particles w ! i) \<le> containerWidth w"
    and "2 * psize (particles w ! i) \<le> containerHeight w"
  shows "let w' = (animate cfg ^^ Suc n) w; p = particles w' ! i
         in length (particles w') = length (particles w) \<and>
            containerWidth w' = containerWidth w \<and> containerHeight w' = containerHeight w \<and>
            psize p = psize (particles w ! i) \<and>
            psize p \<le> px p \<and> px p \<le> containerWidth w' - psize p \<and>
            psize p \<le> py p \<and> py p \<le> containerHeight w' - psize p"
proof -
  let ?w = "(animate cfg ^^ n) w"
  note fr = frames_frame [where cfg = cfg and n = n and w = w]
  have "inside (containerWidth ?w) (containerHeight ?w) (particles (animate cfg ?w) ! i)"
    using assms fr by (intro animate_inside) simp_all
  then show ?thesis
    using assms(1) fr by (simp add: Let_def inside_def animate_psize)
qed

section \<open>Inside the container, or not a number\<close>

text \<open>
  The same on the script's numbers. A coordinate that is \<open>NaN\<close> passes none of the four
  wall tests and stays as it is; any other coordinate is put between the walls.
\<close>

lemma OVERFLOW_pos: "0 < OVERFLOW"
proof -
  have "(2::real) ^ 970 < 2 ^ 1024" by (rule power_strict_increasing) simp_all
  then show ?thesis by (simp add: OVERFLOW_def)
qed

lemma fin_Num: "- OVERFLOW < r \<Longrightarrow> r < OVERFLOW \<Longrightarrow> fin r = Num r"
  by (simp add: fin_def)

lemma le_fin_left:
  assumes "- OVERFLOW < b" "b < OVERFLOW"
  shows "le (fin r) (Num b) \<longleftrightarrow> r \<le> b"
  using assms OVERFLOW_pos by (auto simp add: fin_def)

lemma le_fin_right:
  assumes "- OVERFLOW < a" "a < OVERFLOW"
  shows "le (Num a) (fin r) \<longleftrightarrow> a \<le> r"
  using assms OVERFLOW_pos by (auto simp add: fin_def)

lemma leftWall_n_fields [simp]:
  "nsize (leftWall_n cfg p) = nsize p" "npy (leftWall_n cfg p) = npy p"
  "npx (leftWall_n cfg p) = (if le (sub (npx p) (nsize p)) (Num 0) then nsize p else npx p)"
  by (simp_all add: leftWall_n_def)

lemma rightWall_n_fields [simp]:
  "nsize (rightWall_n cfg W p) = nsize p" "npy (rightWall_n cfg W p) = npy p"
  "npx (rightWall_n cfg W p) = (if le W (add (npx p) (nsize p)) then sub W (nsize p) else npx p)"
  by (simp_all add: rightWall_n_def)

lemma topWall_n_fields [simp]:
  "nsize (topWall_n cfg p) = nsize p" "npx (topWall_n cfg p) = npx p"
  "npy (topWall_n cfg p) = (if le (sub (npy p) (nsize p)) (Num 0) then nsize p else npy p)"
  by (simp_all add: topWall_n_def)

lemma bottomWall_n_fields [simp]:
  "nsize (bottomWall_n cfg H p) = nsize p" "npx (bottomWall_n cfg H p) = npx p"
  "npy (bottomWall_n cfg H p) = (if le H (add (npy p) (nsize p)) then sub H (nsize p) else npy p)"
  by (simp_all add: bottomWall_n_def)

lemma nan_or_within_simps [simp]:
  "nan_or_within lo hi (Num r) \<longleftrightarrow> lo \<le> r \<and> r \<le> hi"
  "nan_or_within lo hi NaN" "\<not> nan_or_within lo hi PInf" "\<not> nan_or_within lo hi MInf"
  by (simp_all add: nan_or_within_def)

text \<open>One axis of the wall tests: the coordinate \<open>x\<close> against the size \<open>s\<close> and the bound \<open>w\<close>.\<close>

lemma axis_nan_or_within:
  assumes "0 \<le> s" and "2 * s \<le> w" and "w < OVERFLOW"
  shows "nan_or_within s (w - s)
           (if le (Num w) (add (if le (sub x (Num s)) (Num 0) then Num s else x) (Num s))
            then sub (Num w) (Num s)
            else (if le (sub x (Num s)) (Num 0) then Num s else x))"
proof -
  define x1 where "x1 = (if le (sub x (Num s)) (Num 0) then Num s else x)"
  have s: "- OVERFLOW < s" "s < OVERFLOW" and w: "- OVERFLOW < w"
    and ws: "- OVERFLOW < w - s" "w - s < OVERFLOW" and ss: "- OVERFLOW < s + s" "s + s < OVERFLOW"
    using assms(1-3) OVERFLOW_pos by simp_all
  have z: "- OVERFLOW < 0" "(0::real) < OVERFLOW" using OVERFLOW_pos by simp_all
  have hi: "sub (Num w) (Num s) = Num (w - s)"
    using ws by (simp add: sub_def fin_Num)
  have top: "nan_or_within s (w - s) (Num (w - s))"
    using assms(1,2) by simp
  have at_s: "nan_or_within s (w - s)
           (if le (Num w) (add (Num s) (Num s)) then Num (w - s) else Num s)"
  proof (cases "le (Num w) (add (Num s) (Num s))")
    case True
    with top show ?thesis by simp
  next
    case False
    with assms(1,2) show ?thesis by simp
  qed
  have "nan_or_within s (w - s) (if le (Num w) (add x1 (Num s)) then Num (w - s) else x1)"
  proof (cases x)
    case (Num a)
    show ?thesis
    proof (cases "a - s \<le> 0")
      case True
      then have eq: "x1 = Num s"
        using le_fin_left [OF z, of "a - s"] by (simp add: x1_def Num sub_def)
      show ?thesis unfolding eq by (rule at_s)
    next
      case False
      then have x1: "x1 = Num a"
        using le_fin_left [OF z, of "a - s"] by (simp add: x1_def Num sub_def)
      have r: "le (Num w) (add (Num a) (Num s)) \<longleftrightarrow> w \<le> a + s"
        using le_fin_right [OF w assms(3), of "a + s"] by simp
      show ?thesis
      proof (cases "w \<le> a + s")
        case True
        with top r show ?thesis by (simp add: x1)
      next
        case notright: False
        with False r assms(1) show ?thesis by (simp add: x1)
      qed
    qed
  next
    case PInf
    then have "x1 = PInf" by (simp add: x1_def sub_def)
    with top show ?thesis by simp
  next
    case MInf
    then have eq: "x1 = Num s" by (simp add: x1_def sub_def)
    show ?thesis unfolding eq by (rule at_s)
  next
    case NaN
    then have "x1 = NaN" by (simp add: x1_def sub_def)
    then show ?thesis by simp
  qed
  then show ?thesis
    unfolding x1_def hi .
qed

lemma npx_handleWallCollisions_n:
  "npx (handleWallCollisions_n cfg W H q)
   = (if le W (add (if le (sub (npx q) (nsize q)) (Num 0) then nsize q else npx q) (nsize q))
      then sub W (nsize q)
      else (if le (sub (npx q) (nsize q)) (Num 0) then nsize q else npx q))"
  by (simp only: handleWallCollisions_n_def bottomWall_n_fields topWall_n_fields
      rightWall_n_fields leftWall_n_fields)

lemma npy_handleWallCollisions_n:
  "npy (handleWallCollisions_n cfg W H q)
   = (if le H (add (if le (sub (npy q) (nsize q)) (Num 0) then nsize q else npy q) (nsize q))
      then sub H (nsize q)
      else (if le (sub (npy q) (nsize q)) (Num 0) then nsize q else npy q))"
proof -
  have "npy (rightWall_n cfg W (leftWall_n cfg q)) = npy q" "nsize (rightWall_n cfg W (leftWall_n cfg q)) = nsize q"
    by (simp_all only: rightWall_n_fields leftWall_n_fields)
  then show ?thesis
    by (simp only: handleWallCollisions_n_def bottomWall_n_fields topWall_n_fields)
qed

lemma nsize_handleWallCollisions_n [simp]: "nsize (handleWallCollisions_n cfg W H q) = nsize q"
  by (simp add: handleWallCollisions_n_def)

lemma handleWallCollisions_n_within:
  assumes "nsize q = Num s" and "0 \<le> s"
  shows "2 * s \<le> w \<Longrightarrow> w < OVERFLOW \<Longrightarrow>
           nan_or_within s (w - s) (npx (handleWallCollisions_n cfg (Num w) H q))"
    and "2 * s \<le> h \<Longrightarrow> h < OVERFLOW \<Longrightarrow>
           nan_or_within s (h - s) (npy (handleWallCollisions_n cfg W (Num h) q))"
  unfolding npx_handleWallCollisions_n npy_handleWallCollisions_n assms(1)
  by (rule axis_nan_or_within [OF assms(2)]; assumption)+

lemma still_n_fields [simp]:
  "npx (still_n p) = npx p" "npy (still_n p) = npy p" "nsize (still_n p) = nsize p"
  by (simp_all add: still_n_def)

lemma still_n_eqD:
  assumes "still_n p = still_n q"
  shows "npx p = npx q" "npy p = npy q" "nsize p = nsize q"
  using still_n_fields [of p] still_n_fields [of q] assms by simp_all

lemma still_n_handleCollision:
  "still_n (fst (handleCollision_n p q)) = still_n p" "still_n (snd (handleCollision_n p q)) = still_n q"
  by (simp_all add: handleCollision_n_def Let_def still_n_def)

lemma collide_n_eq:
  "collide_n i j ps
   = (ps[i := fst (handleCollision_n (ps ! i) (ps ! j))])[j := snd (handleCollision_n (ps ! i) (ps ! j))]"
  by (simp add: collide_n_def split_beta)

lemma length_collide_n [simp]: "length (collide_n i j ps) = length ps"
  by (simp add: collide_n_eq)

lemma still_n_collide_nth:
  assumes "k < length ps"
  shows "still_n (collide_n i j ps ! k) = still_n (ps ! k)"
proof -
  consider "k = j" | "k \<noteq> j" "k = i" | "k \<noteq> i" "k \<noteq> j" by blast
  then show ?thesis
  proof cases
    case 1 with assms show ?thesis by (simp add: collide_n_eq still_n_handleCollision)
  next
    case 2 with assms show ?thesis by (simp add: collide_n_eq still_n_handleCollision)
  next
    case 3 then show ?thesis by (simp add: collide_n_eq)
  qed
qed

lemma map_still_n_collide: "map still_n (collide_n i j ps) = map still_n ps"
  by (rule nth_equalityI) (simp_all add: still_n_collide_nth)

lemma collide_n_fold_still:
  "map still_n (fold (\<lambda>j qs. if j \<noteq> i then collide_n i j qs else qs) js ps) = map still_n ps"
  by (induction js arbitrary: ps) (simp_all add: map_still_n_collide)

lemma map_still_n_collideAll: "map still_n (collideAll_n i ps) = map still_n ps"
  by (simp add: collideAll_n_def collide_n_fold_still)

lemma length_collideAll_n [simp]: "length (collideAll_n i ps) = length ps"
  using arg_cong [OF map_still_n_collideAll [of i ps], of length] by simp

lemma still_n_collideAll_nth: "k < length ps \<Longrightarrow> still_n (collideAll_n i ps ! k) = still_n (ps ! k)"
  using arg_cong [OF map_still_n_collideAll [of i ps], of "\<lambda>xs. xs ! k"] by simp

lemma still_n_repelFromMouse [simp]: "still_n (repelFromMouse_n cfg m p) = still_n p"
  by (simp add: repelFromMouse_n_def still_n_def applyForce_n_def Let_def split: option.split)

lemma nsize_updatePosition_n [simp]: "nsize (updatePosition_n p) = nsize p"
  by (simp add: updatePosition_n_def Let_def)

lemma update_n_frame [simp]:
  "length (nparticles (update_n cfg i w)) = length (nparticles w)"
  "nWidth (update_n cfg i w) = nWidth w"
  "nHeight (update_n cfg i w) = nHeight w"
  "nmouse (update_n cfg i w) = nmouse w"
  by (simp_all add: update_n_def Let_def)

lemma update_n_nth_self:
  assumes "i < length (nparticles w)"
  shows "nparticles (update_n cfg i w) ! i
         = handleWallCollisions_n cfg (nWidth w) (nHeight w)
             (updatePosition_n
                (collideAll_n i ((nparticles w)[i := repelFromMouse_n cfg (nmouse w) (nparticles w ! i)]) ! i))"
  using assms by (simp add: update_n_def Let_def)

lemma still_n_update_other:
  assumes "k \<noteq> i" "k < length (nparticles w)"
  shows "still_n (nparticles (update_n cfg i w) ! k) = still_n (nparticles w ! k)"
  using assms by (simp add: update_n_def Let_def still_n_collideAll_nth)

lemma nsize_update_n:
  assumes "k < length (nparticles w)"
  shows "nsize (nparticles (update_n cfg i w) ! k) = nsize (nparticles w ! k)"
proof (cases "k = i")
  case True
  let ?ps1 = "(nparticles w)[i := repelFromMouse_n cfg (nmouse w) (nparticles w ! i)]"
  have "still_n (collideAll_n i ?ps1 ! i) = still_n (?ps1 ! i)"
    using assms True by (intro still_n_collideAll_nth) simp
  then have "nsize (collideAll_n i ?ps1 ! i) = nsize (?ps1 ! i)"
    by (rule still_n_eqD)
  moreover have "nsize (?ps1 ! i) = nsize (nparticles w ! i)"
    using assms True still_n_eqD(3) [OF still_n_repelFromMouse] by simp
  ultimately show ?thesis
    using assms True by (simp add: update_n_nth_self)
next
  case False
  with assms show ?thesis by (intro still_n_eqD(3) still_n_update_other)
qed

lemma inside_n_still: "still_n p = still_n q \<Longrightarrow> inside_n s w h p = inside_n s w h q"
  using still_n_eqD [of p q] by (simp add: inside_n_def)

lemma update_n_self_inside:
  assumes "i < length (nparticles w)"
    and "nsize (nparticles w ! i) = Num s" and "0 \<le> s"
    and "nWidth w = Num W" and "nHeight w = Num H"
    and "2 * s \<le> W" and "W < OVERFLOW" and "2 * s \<le> H" and "H < OVERFLOW"
  shows "inside_n s W H (nparticles (update_n cfg i w) ! i)"
proof -
  define q where "q = updatePosition_n
      (collideAll_n i ((nparticles w)[i := repelFromMouse_n cfg (nmouse w) (nparticles w ! i)]) ! i)"
  have p': "nparticles (update_n cfg i w) ! i = handleWallCollisions_n cfg (Num W) (Num H) q"
    unfolding q_def using update_n_nth_self [OF assms(1), of cfg] by (simp add: assms(4,5))
  have "nsize (handleWallCollisions_n cfg (Num W) (Num H) q) = Num s"
    using nsize_update_n [OF assms(1), of cfg i] by (simp add: p' assms(2))
  then have q: "nsize q = Num s" by simp
  show ?thesis
    unfolding p' inside_n_def
    using handleWallCollisions_n_within [OF q assms(3)] assms(6-9) by simp
qed

lemma fold_update_n_frame [simp]:
  "length (nparticles (fold (update_n cfg) js w)) = length (nparticles w)"
  "nWidth (fold (update_n cfg) js w) = nWidth w"
  "nHeight (fold (update_n cfg) js w) = nHeight w"
  by (induction js arbitrary: w) simp_all

lemma fold_update_n_nsize:
  "k < length (nparticles w) \<Longrightarrow>
     nsize (nparticles (fold (update_n cfg) js w) ! k) = nsize (nparticles w ! k)"
  by (induction js arbitrary: w) (simp_all add: nsize_update_n)

lemma fold_update_n_inside:
  assumes "i \<in> set js" and "i < length (nparticles w)"
    and "nsize (nparticles w ! i) = Num s" and "0 \<le> s"
    and "nWidth w = Num W" and "nHeight w = Num H"
    and "2 * s \<le> W" and "W < OVERFLOW" and "2 * s \<le> H" and "H < OVERFLOW"
  shows "inside_n s W H (nparticles (fold (update_n cfg) js w) ! i)"
  using assms(1)
proof (induction js rule: rev_induct)
  case Nil
  then show ?case by simp
next
  case (snoc j js)
  let ?w = "fold (update_n cfg) js w"
  have len: "i < length (nparticles ?w)" using assms(2) by simp
  have sz: "nsize (nparticles ?w ! i) = Num s"
    using fold_update_n_nsize [OF assms(2), of cfg js] assms(3) by simp
  show ?case
  proof (cases "i = j")
    case True
    have "inside_n s W H (nparticles (update_n cfg i ?w) ! i)"
      using len sz assms(4) _ _ assms(7-10)
      by (rule update_n_self_inside) (simp_all add: assms(5,6))
    with True show ?thesis by simp
  next
    case False
    with snoc.prems have "i \<in> set js" by simp
    then have "inside_n s W H (nparticles ?w ! i)"
      by (rule snoc.IH)
    moreover have "still_n (nparticles (update_n cfg j ?w) ! i) = still_n (nparticles ?w ! i)"
      using False len by (intro still_n_update_other)
    ultimately show ?thesis
      using inside_n_still [of "nparticles (update_n cfg j ?w) ! i" "nparticles ?w ! i"] by simp
  qed
qed

lemma animate_n_frame [simp]:
  "length (nparticles (animate_n cfg w)) = length (nparticles w)"
  "nWidth (animate_n cfg w) = nWidth w"
  "nHeight (animate_n cfg w) = nHeight w"
  by (simp_all add: animate_n_def)

lemma animate_n_nsize:
  "k < length (nparticles w) \<Longrightarrow> nsize (nparticles (animate_n cfg w) ! k) = nsize (nparticles w ! k)"
  by (simp add: animate_n_def fold_update_n_nsize)

lemma animate_n_inside:
  assumes "i < length (nparticles w)"
    and "nsize (nparticles w ! i) = Num s" and "0 \<le> s"
    and "nWidth w = Num W" and "nHeight w = Num H"
    and "2 * s \<le> W" and "W < OVERFLOW" and "2 * s \<le> H" and "H < OVERFLOW"
  shows "inside_n s W H (nparticles (animate_n cfg w) ! i)"
  unfolding animate_n_def using assms by (intro fold_update_n_inside) simp_all

lemma frames_n_frame:
  "length (nparticles ((animate_n cfg ^^ n) w)) = length (nparticles w) \<and>
   nWidth ((animate_n cfg ^^ n) w) = nWidth w \<and>
   nHeight ((animate_n cfg ^^ n) w) = nHeight w \<and>
   (\<forall>k < length (nparticles w). nsize (nparticles ((animate_n cfg ^^ n) w) ! k) = nsize (nparticles w ! k))"
  by (induction n) (simp_all add: animate_n_nsize)

subsection \<open>Two discs, one about to overflow\<close>

lemma OVERFLOW_large: "1000000 < OVERFLOW"
proof -
  have "(2::real) ^ 970 * 2 \<le> 2 ^ 1024"
    using power_increasing [of 971 1024 "2::real"] by simp
  moreover have "(2::real) ^ 20 \<le> 2 ^ 970" by (rule power_increasing) simp_all
  ultimately show ?thesis by (simp add: OVERFLOW_def)
qed

lemma fin_small: "\<bar>r\<bar> \<le> 1000000 \<Longrightarrow> fin r = Num r"
  using OVERFLOW_large by (auto simp add: fin_def)

lemma HUGE_bounds: "0 < HUGE" "HUGE < OVERFLOW" "OVERFLOW \<le> HUGE * 2"
proof -
  show "0 < HUGE" by (simp add: HUGE_def)
  have a: "(2::real) ^ 1024 = 2 ^ 1023 * 2" by simp
  have b: "(2::real) ^ 970 < 2 ^ 1023" by (rule power_strict_increasing) simp_all
  show "HUGE < OVERFLOW" unfolding HUGE_def OVERFLOW_def a using b by simp
  show "OVERFLOW \<le> HUGE * 2" unfolding HUGE_def OVERFLOW_def a by simp
qed

lemma fin_HUGE [simp]: "fin HUGE = Num HUGE" "fin (HUGE * 2) = PInf"
  using HUGE_bounds by (simp_all add: fin_def)

lemma sqrt_900: "sqrt 900 = 30"
  by (rule real_sqrt_unique) simp_all

lemma runaway_distance: "distance_n (Num 100) (Num 100) (Num 130) (Num 100) = Num 30"
  by (simp add: distance_n_def sub_def fin_small sqrt_900)

lemma runaway_collision:
  "handleCollision_n slow fast
   = (slow\<lparr>nvelocity := \<lparr>nvx = PInf, nvy = NaN\<rparr>\<rparr>, fast\<lparr>nvelocity := \<lparr>nvx = Num 0, nvy = Num 0\<rparr>\<rparr>)"
proof -
  have angle: "neg (atan2_n (sub (Num 100) (Num 100)) (sub (Num 130) (Num 100))) = Num 0"
    by (simp add: sub_def fin_small atan2_def)
  have v1: "rotateVector_n \<lparr>nvx = Num 0, nvy = Num 0\<rparr> (Num 0) = \<lparr>nvx = Num 0, nvy = Num 0\<rparr>"
    by (simp add: rotateVector_n_def sub_def fin_small)
  have v2: "rotateVector_n \<lparr>nvx = Num HUGE, nvy = Num 0\<rparr> (Num 0) = \<lparr>nvx = Num HUGE, nvy = Num 0\<rparr>"
    by (simp add: rotateVector_n_def sub_def fin_small)
  have n1: "calculateCollisionVelocity_n \<lparr>nvx = Num 0, nvy = Num 0\<rparr> \<lparr>nvx = Num HUGE, nvy = Num 0\<rparr> (Num 40) (Num 40)
            = \<lparr>nvx = PInf, nvy = Num 0\<rparr>"
    by (simp add: calculateCollisionVelocity_n_def sub_def fin_small)
  have n2: "calculateCollisionVelocity_n \<lparr>nvx = Num HUGE, nvy = Num 0\<rparr> \<lparr>nvx = Num 0, nvy = Num 0\<rparr> (Num 40) (Num 40)
            = \<lparr>nvx = Num 0, nvy = Num 0\<rparr>"
    by (simp add: calculateCollisionVelocity_n_def sub_def fin_small)
  have r1: "rotateVector_n \<lparr>nvx = PInf, nvy = Num 0\<rparr> (Num 0) = \<lparr>nvx = PInf, nvy = NaN\<rparr>"
    by (simp add: rotateVector_n_def sub_def fin_small)
  show ?thesis
    by (simp add: handleCollision_n_def Let_def slow_def fast_def runaway_distance fin_small
        angle v1 v2 n1 n2 r1)
qed


lemma slow_moves:
  "handleWallCollisions_n PHYSICS (Num 400) (Num 300)
     (updatePosition_n (slow\<lparr>nvelocity := \<lparr>nvx = PInf, nvy = NaN\<rparr>\<rparr>)) = slow_hit"
  by (simp add: updatePosition_n_def Let_def slow_def slow_hit_def handleWallCollisions_n_def
      leftWall_n_def rightWall_n_def topWall_n_def bottomWall_n_def sub_def fin_small PHYSICS_def)

lemma nan_collision:
  "handleCollision_n (fast\<lparr>nvelocity := \<lparr>nvx = Num 0, nvy = Num 0\<rparr>\<rparr>) slow_hit
   = (fast\<lparr>nvelocity := \<lparr>nvx = NaN, nvy = NaN\<rparr>\<rparr>, slow_hit\<lparr>nvelocity := \<lparr>nvx = NaN, nvy = NaN\<rparr>\<rparr>)"
  by (simp add: handleCollision_n_def Let_def fast_def slow_hit_def distance_n_def sub_def fin_small
      rotateVector_n_def calculateCollisionVelocity_n_def)

lemma fast_moves:
  "handleWallCollisions_n PHYSICS (Num 400) (Num 300)
     (updatePosition_n (fast\<lparr>nvelocity := \<lparr>nvx = NaN, nvy = NaN\<rparr>\<rparr>))
   = \<lparr>npx = NaN, npy = NaN, nsize = Num 20, nmass = Num 40, nfriction = Num (995 / 1000),
           nvelocity = \<lparr>nvx = NaN, nvy = NaN\<rparr>\<rparr>"
  by (simp add: updatePosition_n_def Let_def fast_def handleWallCollisions_n_def
      leftWall_n_def rightWall_n_def topWall_n_def bottomWall_n_def sub_def)

lemma runaway_frame:
  "nparticles (animate_n PHYSICS runaway_world)
   = [slow_hit\<lparr>nvelocity := \<lparr>nvx = NaN, nvy = NaN\<rparr>\<rparr>,
      \<lparr>npx = NaN, npy = NaN, nsize = Num 20, nmass = Num 40, nfriction = Num (995 / 1000),
           nvelocity = \<lparr>nvx = NaN, nvy = NaN\<rparr>\<rparr>]"
proof -
  have u0: "update_n PHYSICS 0 runaway_world
            = runaway_world\<lparr>nparticles := [slow_hit, fast\<lparr>nvelocity := \<lparr>nvx = Num 0, nvy = Num 0\<rparr>\<rparr>]\<rparr>"
    by (simp add: update_n_def runaway_world_def Let_def repelFromMouse_n_def collideAll_n_def collide_n_def
        runaway_collision slow_moves)
  have u1: "nparticles (update_n PHYSICS (Suc 0)
              (runaway_world\<lparr>nparticles := [slow_hit, fast\<lparr>nvelocity := \<lparr>nvx = Num 0, nvy = Num 0\<rparr>\<rparr>]\<rparr>))
        = [slow_hit\<lparr>nvelocity := \<lparr>nvx = NaN, nvy = NaN\<rparr>\<rparr>,
      \<lparr>npx = NaN, npy = NaN, nsize = Num 20, nmass = Num 40, nfriction = Num (995 / 1000),
           nvelocity = \<lparr>nvx = NaN, nvy = NaN\<rparr>\<rparr>]"
    by (simp add: update_n_def runaway_world_def Let_def repelFromMouse_n_def collideAll_n_def collide_n_def
        nan_collision fast_moves)
  have "length (nparticles runaway_world) = Suc (Suc 0)" by (simp add: runaway_world_def)
  then show ?thesis
    by (simp add: animate_n_def u0 u1)
qed

text \<open>
  Claim C1, as the script has it. Start from any state, with velocities of any kind.
  A particle whose size is a number that is not negative, in a container whose width
  and height are doubles with room for its diameter (\<open>2 * size\<close> at most the width and at
  most the height), has after every frame of the animation (the first, and each one
  after it) an x that is \<open>NaN\<close> or satisfies \<open>size \<le> x \<le> width - size\<close>, and a y that is
  \<open>NaN\<close> or satisfies \<open>size \<le> y \<le> height - size\<close>. The frames change neither the container
  nor the number of particles nor their sizes.
\<close>

theorem coordinates_nan_or_inside:
  assumes "i < length (nparticles w)"
    and "nsize (nparticles w ! i) = Num s" and "0 \<le> s"
    and "nWidth w = Num W" and "nHeight w = Num H"
    and "2 * s \<le> W" and "W < OVERFLOW" and "2 * s \<le> H" and "H < OVERFLOW"
  shows "let w' = (animate_n cfg ^^ Suc n) w; p = nparticles w' ! i
         in length (nparticles w') = length (nparticles w) \<and>
            nWidth w' = Num W \<and> nHeight w' = Num H \<and> nsize p = Num s \<and>
            (npx p = NaN \<or> (\<exists>x. npx p = Num x \<and> s \<le> x \<and> x \<le> W - s)) \<and>
            (npy p = NaN \<or> (\<exists>y. npy p = Num y \<and> s \<le> y \<and> y \<le> H - s))"
proof -
  let ?w = "(animate_n cfg ^^ n) w"
  note fr = frames_n_frame [where cfg = cfg and n = n and w = w]
  have "inside_n s W H (nparticles (animate_n cfg ?w) ! i)"
    using assms fr by (intro animate_n_inside) simp_all
  moreover have "nan_or_within lo hi x \<longleftrightarrow> x = NaN \<or> (\<exists>r. x = Num r \<and> lo \<le> r \<and> r \<le> hi)" for lo hi x
    by (cases x) simp_all
  ultimately show ?thesis
    using assms(1,2,4,5) fr by (simp add: Let_def inside_n_def animate_n_nsize)
qed

theorem coordinates_nan_or_inside_witness:
  "(0::nat) < length (nparticles runaway_world) \<and> nsize (nparticles runaway_world ! 0) = Num 20 \<and> (0::real) \<le> 20 \<and>
   nWidth runaway_world = Num 400 \<and> nHeight runaway_world = Num 300 \<and>
   (2 * 20 :: real) \<le> 400 \<and> 400 < OVERFLOW \<and> (2 * 20 :: real) \<le> 300 \<and> 300 < OVERFLOW \<and>
   npx (nparticles ((animate_n PHYSICS ^^ Suc 0) runaway_world) ! 0) = Num 380 \<and>
   npy (nparticles ((animate_n PHYSICS ^^ Suc 0) runaway_world) ! 0) = NaN"
proof -
  have w: "nparticles runaway_world = [slow, fast]" "nWidth runaway_world = Num 400" "nHeight runaway_world = Num 300"
    "nsize slow = Num 20"
    by (simp_all add: runaway_world_def slow_def)
  have o: "(400::real) < OVERFLOW" "(300::real) < OVERFLOW"
    using OVERFLOW_large by simp_all
  show ?thesis
    using coordinates_nan_or_inside [where i = 0 and w = runaway_world and s = 20 and W = 400 and H = 300
        and cfg = PHYSICS and n = 0] o
    by (simp add: w runaway_frame slow_hit_def)
qed

subsection \<open>A frame that ends outside\<close>

text \<open>
  In \<open>runaway_world\<close> the collision doubles the x-velocity \<open>2^1023\<close> of the second disc,
  which overflows to \<open>Infinity\<close>; rotating back multiplies \<open>Infinity\<close> by \<open>sin 0 = 0\<close>, which is
  \<open>NaN\<close>, so the first disc gets the velocity \<open>(Infinity, NaN)\<close>. Its y becomes \<open>NaN\<close> and
  no wall test corrects it. The distance between the two is then \<open>NaN\<close>, the second
  collision goes through, and the second disc ends the frame with both coordinates
  \<open>NaN\<close>. The diameters fit the container; the positions after the frame are not
  within it.
\<close>

theorem runaway_counterexample:
  "nsize (nparticles runaway_world ! 0) = Num 20 \<and> nsize (nparticles runaway_world ! 1) = Num 20 \<and>
   nWidth runaway_world = Num 400 \<and> nHeight runaway_world = Num 300 \<and>
   npx (nparticles runaway_world ! 0) = Num 100 \<and> npy (nparticles runaway_world ! 0) = Num 100 \<and>
   npx (nparticles runaway_world ! 1) = Num 130 \<and> npy (nparticles runaway_world ! 1) = Num 100 \<and>
   npy (nparticles (animate_n PHYSICS runaway_world) ! 0) = NaN \<and>
   npx (nparticles (animate_n PHYSICS runaway_world) ! 1) = NaN \<and>
   npy (nparticles (animate_n PHYSICS runaway_world) ! 1) = NaN \<and>
   \<not> le (Num 20) (npy (nparticles (animate_n PHYSICS runaway_world) ! 0)) \<and>
   \<not> le (Num 20) (npx (nparticles (animate_n PHYSICS runaway_world) ! 1))"
proof -
  have "nparticles runaway_world = [slow, fast]" "nWidth runaway_world = Num 400" "nHeight runaway_world = Num 300"
    by (simp_all add: runaway_world_def)
  then show ?thesis
    by (simp add: runaway_frame slow_hit_def) (simp add: slow_def fast_def)
qed

section \<open>The calls of a frame, in order\<close>

lemma collide_fold_log:
  "fold (\<lambda>j (qs, l). if j \<noteq> i then (collide i j qs, l @ [Collide i j]) else (qs, l)) js (ps, l0)
   = (fold (\<lambda>j qs. if j \<noteq> i then collide i j qs else qs) js ps,
      l0 @ map (Collide i) (filter (\<lambda>j. j \<noteq> i) js))"
  by (induction js arbitrary: ps l0) simp_all

lemma collideAll_log_eq:
  "collideAll_log i (ps, l) = (collideAll i ps, l @ map (Collide i) (filter (\<lambda>j. j \<noteq> i) [0..<length ps]))"
  by (simp add: collideAll_log_def collideAll_def collide_fold_log)

lemma update_log_eq:
  "update_log cfg i (w, l) = (update cfg i w, l @ calls_of (length (particles w)) i)"
  by (simp add: update_log_def update_def Let_def collideAll_log_eq calls_of_def)

lemma fold_update_log:
  "fold (update_log cfg) js (w, l)
   = (fold (update cfg) js w, l @ concat (map (calls_of (length (particles w))) js))"
proof (induction js arbitrary: w l)
  case Nil
  show ?case by simp
next
  case (Cons j js)
  show ?case by (simp add: update_log_eq Cons.IH)
qed

lemma animate_log_eq:
  "animate_log cfg w
   = (animate cfg w, concat (map (calls_of (length (particles w))) [0..<length (particles w)]))"
  by (simp add: animate_log_def animate_def fold_update_log)

lemma collisions_append [simp]: "collisions (xs @ ys) = collisions xs @ collisions ys"
  by (induction xs rule: collisions.induct) simp_all

lemma collisions_map_Collide [simp]: "collisions (map (Collide i) js) = map (Pair i) js"
  by (induction js) simp_all

lemma collisions_calls_of: "collisions (calls_of n i) = map (Pair i) (filter (\<lambda>j. j \<noteq> i) [0..<n])"
  by (simp add: calls_of_def)

lemma collisions_concat: "collisions (concat xss) = concat (map collisions xss)"
  by (induction xss) simp_all

lemma collisions_animate_log:
  "collisions (snd (animate_log cfg w)) = ordered_pairs (length (particles w))"
  by (simp add: animate_log_eq collisions_concat ordered_pairs_def comp_def collisions_calls_of)

lemma count_list_upt: "count_list [0..<n] k = (if k < n then 1 else 0)"
  by (induction n) auto

lemma count_list_filter: "count_list (filter P xs) x = (if P x then count_list xs x else 0)"
  by (induction xs) auto

lemma count_list_map_Pair: "count_list (map (Pair i) xs) (a, b) = (if i = a then count_list xs b else 0)"
  by (induction xs) auto

lemma count_list_rows:
  "count_list (concat (map (\<lambda>i. map (Pair i) (filter (\<lambda>j. j \<noteq> i) js)) is)) (a, b)
   = count_list is a * (if b \<noteq> a then count_list js b else 0)"
  by (induction "is") (auto simp add: count_list_map_Pair count_list_filter)

lemma count_list_ordered_pairs:
  "count_list (ordered_pairs n) (i, j) = (if i < n \<and> j < n \<and> i \<noteq> j then 1 else 0)"
  by (simp add: ordered_pairs_def count_list_rows count_list_upt)

lemma phased_after_Integrate:
  "list_ex early ys \<Longrightarrow> \<not> phased (xs @ Integrate i # ys)"
proof (induction xs)
  case Nil
  then show ?case by simp
next
  case (Cons x xs)
  then show ?case by (cases x) simp_all
qed

lemma calls_of_two:
  assumes "2 \<le> n"
  shows "\<not> phased (concat (map (calls_of n) [0..<n]))"
proof -
  from assms have "0 < n" "Suc 0 < n" by simp_all
  then have "[0..<n] = 0 # 1 # [2..<n]"
    by (simp add: upt_conv_Cons numeral_2_eq_2)
  then have "concat (map (calls_of n) [0..<n])
     = (Repel 0 # map (Collide 0) (filter (\<lambda>j. j \<noteq> 0) [0..<n])) @ Integrate 0
         # (Walls 0 # calls_of n 1 @ concat (map (calls_of n) [2..<n]))"
    by (simp add: calls_of_def)
  moreover have "list_ex early (Walls 0 # calls_of n 1 @ concat (map (calls_of n) [2..<n]))"
    by (simp add: calls_of_def)
  ultimately show ?thesis
    using phased_after_Integrate by simp
qed

lemma phased_calls_iff: "phased (concat (map (calls_of n) [0..<n])) \<longleftrightarrow> n \<le> 1"
proof (cases "2 \<le> n")
  case True
  with calls_of_two [OF True] show ?thesis by simp
next
  case False
  then consider "n = 0" | "n = 1" by linarith
  then show ?thesis
    by cases (simp_all add: calls_of_def)
qed

subsection \<open>Two overlapping discs, one frame\<close>

lemma first_collision:
  "handleCollision ball0 ball1 = (ball0\<lparr>velocity := \<lparr>vx = - 1, vy = 0\<rparr>\<rparr>, ball1\<lparr>velocity := \<lparr>vx = 1, vy = 0\<rparr>\<rparr>)"
  by (simp add: handleCollision_def distance_horizontal ball0_def ball1_def Let_def atan2_def
      rotateVector_def calculateCollisionVelocity_def)

lemma ball0_moves:
  "handleWallCollisions cfg 400 300 (updatePosition (ball0\<lparr>velocity := \<lparr>vx = - 1, vy = 0\<rparr>\<rparr>)) = ball0_moved"
  by (simp add: updatePosition_eq ball0_def ball0_moved_def handleWallCollisions_walls
      leftWall_def rightWall_def topWall_def bottomWall_def)

lemma second_collision:
  "handleCollision (ball1\<lparr>velocity := \<lparr>vx = 1, vy = 0\<rparr>\<rparr>) ball0_moved
   = (ball1\<lparr>velocity := \<lparr>vx = - (995 / 1000), vy = 0\<rparr>\<rparr>, ball0_moved\<lparr>velocity := \<lparr>vx = 1, vy = 0\<rparr>\<rparr>)"
  by (simp add: handleCollision_def distance_horizontal ball0_moved_def ball1_def Let_def atan2_def
      rotateVector_def calculateCollisionVelocity_def)

lemma upt_2 [simp]: "[0..<Suc (Suc 0)] = [0, Suc 0]"
  by (simp add: upt_conv_Cons)

lemma world2_frame:
  "particles (animate PHYSICS world2)
   = [ball0_moved\<lparr>velocity := \<lparr>vx = 1, vy = 0\<rparr>\<rparr>,
      \<lparr>px = 130 - 990025 / 1000000, py = 100, psize = 20, mass = 40, friction = 995 / 1000,
            velocity = \<lparr>vx = - (990025 / 1000000), vy = 0\<rparr>\<rparr>]"
proof -
  have u0: "update PHYSICS 0 world2 = world2\<lparr>particles := [ball0_moved, ball1\<lparr>velocity := \<lparr>vx = 1, vy = 0\<rparr>\<rparr>]\<rparr>"
    by (simp add: update_def world2_def Let_def repelFromMouse_def collideAll_def collide_def
        first_collision ball0_moves)
  have m1: "handleWallCollisions PHYSICS 400 300 (updatePosition (ball1\<lparr>velocity := \<lparr>vx = - (995 / 1000), vy = 0\<rparr>\<rparr>))
      = \<lparr>px = 130 - 990025 / 1000000, py = 100, psize = 20, mass = 40, friction = 995 / 1000,
            velocity = \<lparr>vx = - (990025 / 1000000), vy = 0\<rparr>\<rparr>"
    by (simp add: updatePosition_eq ball1_def handleWallCollisions_walls
      leftWall_def rightWall_def topWall_def bottomWall_def)
  have u1: "particles (update PHYSICS (Suc 0) (world2\<lparr>particles := [ball0_moved, ball1\<lparr>velocity := \<lparr>vx = 1, vy = 0\<rparr>\<rparr>]\<rparr>))
        = [ball0_moved\<lparr>velocity := \<lparr>vx = 1, vy = 0\<rparr>\<rparr>,
      \<lparr>px = 130 - 990025 / 1000000, py = 100, psize = 20, mass = 40, friction = 995 / 1000,
            velocity = \<lparr>vx = - (990025 / 1000000), vy = 0\<rparr>\<rparr>]"
    using m1 second_collision
    by (simp add: update_def world2_def Let_def repelFromMouse_def collideAll_def collide_def)
  have "length (particles world2) = Suc (Suc 0)" by (simp add: world2_def)
  then show ?thesis
    by (simp add: animate_def u0 u1)
qed

lemma world2_step_spec:
  "particles (step_spec PHYSICS world2)
   = [ball0_moved,
      \<lparr>px = 130 + 995 / 1000, py = 100, psize = 20, mass = 40, friction = 995 / 1000,
            velocity = \<lparr>vx = 995 / 1000, vy = 0\<rparr>\<rparr>]"
proof -
  have m1: "handleWallCollisions PHYSICS 400 300 (updatePosition (ball1\<lparr>velocity := \<lparr>vx = 1, vy = 0\<rparr>\<rparr>))
      = \<lparr>px = 130 + 995 / 1000, py = 100, psize = 20, mass = 40, friction = 995 / 1000,
            velocity = \<lparr>vx = 995 / 1000, vy = 0\<rparr>\<rparr>"
    by (simp add: updatePosition_eq ball1_def handleWallCollisions_walls
      leftWall_def rightWall_def topWall_def bottomWall_def)
  have "unordered_pairs (Suc (Suc 0)) = [(0, Suc 0)]"
    by (simp add: unordered_pairs_def)
  then show ?thesis
    using m1 ball0_moves [of PHYSICS] first_collision
    by (simp add: step_spec_def world2_def Let_def repelFromMouse_def collide_def)
qed

section \<open>Each pair is resolved twice\<close>

text \<open>
  Claim C2, as the script has it. In one frame \<open>handleCollision\<close> is called exactly once
  for every ordered pair \<open>(i, j)\<close> of different particles, as \<open>particles[i]\<close> against
  \<open>particles[j]\<close>, row by row, and for nothing else; so every unordered pair is resolved
  twice, once from each side. The recorded frame computes what the frame computes.
\<close>

theorem each_ordered_pair_collides_once:
  "fst (animate_log cfg w) = animate cfg w \<and>
   collisions (snd (animate_log cfg w)) = ordered_pairs (length (particles w)) \<and>
   (\<forall>i j. count_list (collisions (snd (animate_log cfg w))) (i, j)
      = (if i < length (particles w) \<and> j < length (particles w) \<and> i \<noteq> j then 1 else 0))"
proof -
  have "fst (animate_log cfg w) = animate cfg w"
    by (simp add: animate_log_eq)
  then show ?thesis
    by (simp only: collisions_animate_log count_list_ordered_pairs) simp
qed

text \<open>
  What the second resolution does not do is double the impulse of the first. For the two
  discs of \<open>world2\<close> both calls are made; one call changes the x-velocity of the first
  disc by -2, and a step that resolves the pair once changes it by -1.995 (friction
  included); the whole frame changes it by 0, the second call giving back what the
  first took.
\<close>

theorem double_resolution_counterexample:
  "collisions (snd (animate_log PHYSICS world2)) = [(0, 1), (1, 0)] \<and>
   vx (velocity (fst (handleCollision ball0 ball1))) - vx (velocity ball0) = - 2 \<and>
   vx (velocity (particles (step_spec PHYSICS world2) ! 0)) - vx (velocity ball0) = - (1995 / 1000) \<and>
   vx (velocity (particles (animate PHYSICS world2) ! 0)) - vx (velocity ball0) = 0 \<and>
   vx (velocity (particles (animate PHYSICS world2) ! 0)) - vx (velocity ball0)
     \<noteq> 2 * (vx (velocity (fst (handleCollision ball0 ball1))) - vx (velocity ball0))"
proof -
  have "length (particles world2) = Suc (Suc 0)" by (simp add: world2_def)
  then have "collisions (snd (animate_log PHYSICS world2)) = [(0, 1), (1, 0)]"
    by (simp add: collisions_animate_log ordered_pairs_def)
  moreover have "vx (velocity ball0) = 1" by (simp add: ball0_def)
  ultimately show ?thesis
    by (simp add: world2_frame world2_step_spec first_collision ball0_moved_def)
qed

section \<open>The frame is not phased\<close>

text \<open>
  Claim C4, as the script has it. A frame goes particle by particle: for each particle
  in array order, its repulsion, then its collisions with every other particle, then its
  integration and its wall collisions, before anything is done for the next particle.
  Nothing is integrated before the last repulsion and the last collision only when there
  is at most one particle.
\<close>

theorem frame_goes_particle_by_particle:
  "animate_log cfg w
     = (animate cfg w, concat (map (calls_of (length (particles w))) [0..<length (particles w)])) \<and>
   (phased (snd (animate_log cfg w)) \<longleftrightarrow> length (particles w) \<le> 1)"
proof -
  have calls: "animate_log cfg w
     = (animate cfg w, concat (map (calls_of (length (particles w))) [0..<length (particles w)]))"
    by (rule animate_log_eq)
  have "phased (concat (map (calls_of (length (particles w))) [0..<length (particles w)]))
        \<longleftrightarrow> length (particles w) \<le> 1"
    by (rule phased_calls_iff)
  with calls show ?thesis by simp
qed

text \<open>
  With the two discs of \<open>world2\<close> the first is integrated before the second is repelled
  and before the pair is resolved from the second's side, and the frame ends in another
  state than the phased step of the specification.
\<close>

theorem phases_counterexample:
  "\<not> phased (snd (animate_log PHYSICS world2)) \<and>
   snd (animate_log PHYSICS world2)
     = [Repel 0, Collide 0 1, Integrate 0, Walls 0, Repel 1, Collide 1 0, Integrate 1, Walls 1] \<and>
   particles (animate PHYSICS world2) \<noteq> particles (step_spec PHYSICS world2)"
proof -
  have "length (particles world2) = Suc (Suc 0)" by (simp add: world2_def)
  then have "snd (animate_log PHYSICS world2)
     = [Repel 0, Collide 0 1, Integrate 0, Walls 0, Repel 1, Collide 1 0, Integrate 1, Walls 1]"
    by (simp add: animate_log_eq calls_of_def)
  then show ?thesis
    by (simp add: world2_frame world2_step_spec ball0_moved_def)
qed

section \<open>A particle that nothing disturbs\<close>

lemma overlapping_commute: "overlapping p q = overlapping q p"
  by (simp add: overlapping_def distance_commute [of "px p"] add.commute)

lemma overlapping_still:
  assumes "still p = still p'" and "still q = still q'"
  shows "overlapping p q = overlapping p' q'"
  using still_eqD [OF assms(1)] still_eqD [OF assms(2)] by (simp add: overlapping_def)

lemma handleCollision_apart: "\<not> overlapping p q \<Longrightarrow> handleCollision p q = (p, q)"
  by (auto simp add: handleCollision_def overlapping_def Let_def)

lemma collide_apart: "\<not> overlapping (ps ! i) (ps ! j) \<Longrightarrow> collide i j ps = ps"
  by (simp add: collide_eq handleCollision_apart)

lemma repelFromMouse_unrepelled: "\<not> repelled cfg m p \<Longrightarrow> repelFromMouse cfg m p = p"
  by (auto simp add: repelFromMouse_def repelled_def Let_def split: option.splits)

lemma handleWallCollisions_free: "\<not> touches_wall W H p \<Longrightarrow> handleWallCollisions cfg W H p = p"
  by (simp add: handleWallCollisions_def touches_wall_def)

text \<open>The collisions of particle \<open>j\<close>, seen from a particle \<open>k\<close> that \<open>j\<close> does not overlap.\<close>

lemma fold_collide_keeps:
  assumes "k \<noteq> j" and "k < length qs" and "\<not> overlapping (qs ! j) (qs ! k)" and "j < length qs"
  shows "fold (\<lambda>j' qs. if j' \<noteq> j then collide j j' qs else qs) js qs ! k = qs ! k"
  using assms(2,3,4)
proof (induction js arbitrary: qs)
  case Nil
  show ?case by simp
next
  case (Cons j' js)
  show ?case
  proof (cases "j' = j")
    case True
    with Cons show ?thesis by simp
  next
    case False
    let ?qs = "collide j j' qs"
    have same: "?qs ! k = qs ! k"
    proof (cases "j' = k")
      case True
      with Cons.prems show ?thesis by (simp add: collide_apart)
    next
      case False
      with assms(1) show ?thesis by (simp add: collide_nth_other)
    qed
    have "still (?qs ! j) = still (qs ! j)"
      using Cons.prems(3) by (simp add: still_collide_nth)
    with same Cons.prems(2) have "\<not> overlapping (?qs ! j) (?qs ! k)"
      using overlapping_still [of "?qs ! j" "qs ! j" "?qs ! k" "qs ! k"] by simp
    moreover from Cons.prems(1,3) have "k < length ?qs" "j < length ?qs" by simp_all
    ultimately have "fold (\<lambda>j' qs. if j' \<noteq> j then collide j j' qs else qs) js ?qs ! k = ?qs ! k"
      by (intro Cons.IH)
    with False same show ?thesis by simp
  qed
qed

lemma update_other_quiet:
  assumes "k \<noteq> j" and "k < length (particles w)" and "j < length (particles w)"
    and "\<not> overlapping (particles w ! j) (particles w ! k)"
  shows "particles (update cfg j w) ! k = particles w ! k"
proof -
  define ps1 where "ps1 = (particles w)[j := repelFromMouse cfg (mouse w) (particles w ! j)]"
  have k: "ps1 ! k = particles w ! k" and len: "k < length ps1"
    using assms(1,2) by (simp_all add: ps1_def)
  have "still (ps1 ! j) = still (particles w ! j)"
    using assms(3) by (simp add: ps1_def)
  with assms(4) k have "\<not> overlapping (ps1 ! j) (ps1 ! k)"
    using overlapping_still [of "ps1 ! j" "particles w ! j" "ps1 ! k" "particles w ! k"] by simp
  moreover have "j < length ps1" using assms(3) by (simp add: ps1_def)
  ultimately have "collideAll j ps1 ! k = ps1 ! k"
    unfolding collideAll_def using assms(1) len by (intro fold_collide_keeps)
  with assms(1) k show ?thesis
    by (simp add: update_nth_other ps1_def)
qed

lemma fold_collide_apart:
  assumes "\<forall>j \<in> set js. j \<noteq> i \<longrightarrow> \<not> overlapping (qs ! i) (qs ! j)"
  shows "fold (\<lambda>j qs. if j \<noteq> i then collide i j qs else qs) js qs = qs"
  using assms by (induction js) (simp_all add: collide_apart)

lemma update_self_quiet:
  assumes "i < length (particles w)"
    and "\<not> repelled cfg (mouse w) (particles w ! i)"
    and "\<forall>j < length (particles w). j \<noteq> i \<longrightarrow> \<not> overlapping (particles w ! i) (particles w ! j)"
    and "\<not> touches_wall (containerWidth w) (containerHeight w) (updatePosition (particles w ! i))"
  shows "particles (update cfg i w) ! i = updatePosition (particles w ! i)"
proof -
  have "(particles w)[i := repelFromMouse cfg (mouse w) (particles w ! i)] = particles w"
    using assms(2) by (simp add: repelFromMouse_unrepelled)
  moreover have "collideAll i (particles w) = particles w"
    unfolding collideAll_def using assms(3) by (intro fold_collide_apart) simp
  ultimately show ?thesis
    using assms(1,4) by (simp add: update_nth_self handleWallCollisions_free)
qed

lemma fold_update_quiet:
  assumes "i \<notin> set js" and "distinct js" and "i < length (particles w)"
    and "\<forall>j \<in> set js. j < length (particles w) \<and> \<not> overlapping (particles w ! j) (particles w ! i)"
  shows "particles (fold (update cfg) js w) ! i = particles w ! i"
  using assms
proof (induction js arbitrary: w)
  case Nil
  show ?case by simp
next
  case (Cons j js)
  let ?w = "update cfg j w"
  from Cons.prems have ji: "i \<noteq> j" and jl: "j < length (particles w)"
    and apart: "\<not> overlapping (particles w ! j) (particles w ! i)" by auto
  have same: "particles ?w ! i = particles w ! i"
    using ji Cons.prems(3) jl apart by (intro update_other_quiet) auto
  have "\<forall>j' \<in> set js. j' < length (particles ?w) \<and> \<not> overlapping (particles ?w ! j') (particles ?w ! i)"
  proof
    fix j' assume j': "j' \<in> set js"
    with Cons.prems have l: "j' < length (particles w)" and n: "j' \<noteq> j"
      and a: "\<not> overlapping (particles w ! j') (particles w ! i)" by auto
    have "still (particles ?w ! j') = still (particles w ! j')"
      using n l by (intro still_update_other)
    with a same l show "j' < length (particles ?w) \<and> \<not> overlapping (particles ?w ! j') (particles ?w ! i)"
      using overlapping_still [of "particles ?w ! j'" "particles w ! j'" "particles ?w ! i" "particles w ! i"]
      by simp
  qed
  moreover from Cons.prems have "i \<notin> set js" "distinct js" "i < length (particles ?w)" by simp_all
  ultimately have "particles (fold (update cfg) js ?w) ! i = particles ?w ! i"
    by (intro Cons.IH)
  with same show ?case by simp
qed

lemma upt_split: "i < n \<Longrightarrow> [0..<n] = [0..<i] @ i # [Suc i..<n]"
  using upt_add_eq_append [of 0 i "n - i"] by (simp add: upt_conv_Cons)

lemma still_updatePosition_fields:
  "psize (updatePosition p) = psize p" "mass (updatePosition p) = mass p" "friction (updatePosition p) = friction p"
  by (simp_all add: updatePosition_eq)

text \<open>
  Claim C6. Take a particle of a frame that gets no repulsion (no mouse position, or a
  distance to it outside \<open>(0, REPULSION_RADIUS)\<close>), that no call of \<open>handleCollision\<close> finds
  overlapping another particle, and that touches no wall after it has moved. The calls
  that involve it are made with the others where they are at that moment: the particles
  before it in the array have moved when its own collisions are tested, and it has moved
  when the particles after it test theirs. Then the frame does to it what
  \<open>updatePosition\<close> does and nothing else: each component of its velocity is multiplied
  by its friction, its position advances by the new velocity, and its speed is its
  friction times the old speed (the friction being non-negative, as the shipped 0.995 is).
\<close>

theorem undisturbed_particle_only_slows:
  assumes "i < length (particles w)"
    and "\<not> repelled cfg (mouse w) (particles w ! i)"
    and "\<forall>j < length (particles w). j \<noteq> i \<longrightarrow> \<not> overlapping (particles w ! i) (particles w ! j)"
    and "\<forall>j < i. \<not> overlapping (particles w ! i) (particles (animate cfg w) ! j)"
    and "\<forall>j < length (particles w). i < j \<longrightarrow> \<not> overlapping (updatePosition (particles w ! i)) (particles w ! j)"
    and "\<not> touches_wall (containerWidth w) (containerHeight w) (updatePosition (particles w ! i))"
    and "0 \<le> friction (particles w ! i)"
  shows "let p = particles w ! i; p' = particles (animate cfg w) ! i
         in p' = updatePosition p \<and>
            vx (velocity p') = vx (velocity p) * friction p \<and>
            vy (velocity p') = vy (velocity p) * friction p \<and>
            px p' = px p + vx (velocity p') \<and>
            py p' = py p + vy (velocity p') \<and>
            sqrt ((vx (velocity p'))\<^sup>2 + (vy (velocity p'))\<^sup>2)
              = friction p * sqrt ((vx (velocity p))\<^sup>2 + (vy (velocity p))\<^sup>2)"
proof -
  define n where "n = length (particles w)"
  define p where "p = particles w ! i"
  define w1 where "w1 = fold (update cfg) [0..<i] w"
  define w2 where "w2 = update cfg i w1"
  have split: "animate cfg w = fold (update cfg) [Suc i..<n] w2"
    using assms(1) by (simp add: animate_def upt_split [of i] w1_def w2_def n_def)
  have len1: "length (particles w1) = n" and len2: "length (particles w2) = n"
    by (simp_all add: w1_def w2_def n_def)
  have i_n: "i < n" using assms(1) by (simp add: n_def)
  have env1: "mouse w1 = mouse w" "containerWidth w1 = containerWidth w" "containerHeight w1 = containerHeight w"
    by (simp_all add: w1_def)
  \<comment> \<open>the particles before it leave it alone\<close>
  have p1: "particles w1 ! i = p"
    unfolding w1_def p_def
  proof (rule fold_update_quiet)
    show "i \<notin> set [0..<i]" "distinct [0..<i]" "i < length (particles w)"
      using assms(1) by simp_all
    show "\<forall>j \<in> set [0..<i]. j < length (particles w) \<and> \<not> overlapping (particles w ! j) (particles w ! i)"
      using assms(1,3) by (auto simp add: overlapping_commute [of "particles w ! i"])
  qed
  \<comment> \<open>where the others are when its own turn comes\<close>
  have later1: "still (particles w1 ! j) = still (particles w ! j)" if "i < j" "j < n" for j
    unfolding w1_def using that by (intro fold_update_still_other) (simp_all add: n_def)
  have later2: "still (particles w2 ! j) = still (particles w ! j)" if "i < j" "j < n" for j
  proof -
    have "still (particles w2 ! j) = still (particles w1 ! j)"
      unfolding w2_def using that by (intro still_update_other) (simp_all add: len1)
    with later1 [OF that] show ?thesis by simp
  qed
  have earlier: "still (particles (animate cfg w) ! j) = still (particles w1 ! j)" if "j < i" for j
  proof -
    have "still (particles (animate cfg w) ! j) = still (particles w2 ! j)"
      unfolding split using that i_n by (intro fold_update_still_other) (simp_all add: len2)
    also have "\<dots> = still (particles w1 ! j)"
      unfolding w2_def using that i_n by (intro still_update_other) (simp_all add: len1)
    finally show ?thesis .
  qed
  \<comment> \<open>its own turn\<close>
  have apart1: "\<not> overlapping (particles w1 ! i) (particles w1 ! j)" if "j < n" "j \<noteq> i" for j
  proof (cases "j < i")
    case True
    with assms(4) have "\<not> overlapping p (particles (animate cfg w) ! j)" by (simp add: p_def)
    then show ?thesis
      using overlapping_still [OF refl earlier [OF True], of p] by (simp add: p1)
  next
    case False
    with that have "i < j" by simp
    from that assms(3) have "\<not> overlapping p (particles w ! j)" by (simp add: p_def n_def)
    then show ?thesis
      using overlapping_still [OF refl later1 [OF \<open>i < j\<close> that(1)], of p] by (simp add: p1)
  qed
  have p2: "particles w2 ! i = updatePosition p"
    unfolding w2_def p1 [symmetric]
  proof (rule update_self_quiet)
    show "i < length (particles w1)" using i_n by (simp add: len1)
    show "\<not> repelled cfg (mouse w1) (particles w1 ! i)"
      using assms(2) by (simp add: p1 p_def env1)
    show "\<forall>j < length (particles w1). j \<noteq> i \<longrightarrow> \<not> overlapping (particles w1 ! i) (particles w1 ! j)"
      using apart1 by (simp add: len1)
    show "\<not> touches_wall (containerWidth w1) (containerHeight w1) (updatePosition (particles w1 ! i))"
      using assms(6) by (simp add: p1 p_def env1)
  qed
  \<comment> \<open>the particles after it leave it alone\<close>
  have p3: "particles (animate cfg w) ! i = updatePosition p"
    unfolding split p2 [symmetric]
  proof (rule fold_update_quiet)
    show "i \<notin> set [Suc i..<n]" "distinct [Suc i..<n]" "i < length (particles w2)"
      using i_n by (simp_all add: len2)
    show "\<forall>j \<in> set [Suc i..<n]. j < length (particles w2) \<and> \<not> overlapping (particles w2 ! j) (particles w2 ! i)"
    proof
      fix j assume "j \<in> set [Suc i..<n]"
      then have j: "i < j" "j < n" by simp_all
      with assms(5) have "\<not> overlapping (updatePosition p) (particles w ! j)" by (simp add: p_def n_def)
      then have "\<not> overlapping (particles w ! j) (updatePosition p)" by (simp add: overlapping_commute)
      then have "\<not> overlapping (particles w2 ! j) (particles w2 ! i)"
        using overlapping_still [OF later2 [OF j] refl, of "updatePosition p"] by (simp add: p2)
      with j show "j < length (particles w2) \<and> \<not> overlapping (particles w2 ! j) (particles w2 ! i)"
        by (simp add: len2)
    qed
  qed
  have "sqrt ((vx (velocity p) * friction p)\<^sup>2 + (vy (velocity p) * friction p)\<^sup>2)
        = friction p * sqrt ((vx (velocity p))\<^sup>2 + (vy (velocity p))\<^sup>2)"
  proof -
    have "(vx (velocity p) * friction p)\<^sup>2 + (vy (velocity p) * friction p)\<^sup>2
          = (friction p)\<^sup>2 * ((vx (velocity p))\<^sup>2 + (vy (velocity p))\<^sup>2)"
      by (simp add: power_mult_distrib algebra_simps)
    then show ?thesis
      using assms(7) by (simp add: real_sqrt_mult p_def)
  qed
  then show ?thesis
    unfolding Let_def p_def [symmetric] p3 by (simp add: updatePosition_eq)
qed


theorem undisturbed_particle_only_slows_witness:
  "(0::nat) < length (particles apart_world) \<and>
   \<not> repelled PHYSICS (mouse apart_world) (particles apart_world ! 0) \<and>
   \<not> overlapping (particles apart_world ! 0) (particles apart_world ! 1) \<and>
   \<not> overlapping (updatePosition (particles apart_world ! 0)) (particles apart_world ! 1) \<and>
   \<not> touches_wall (containerWidth apart_world) (containerHeight apart_world)
        (updatePosition (particles apart_world ! 0)) \<and>
   0 \<le> friction (particles apart_world ! 0) \<and>
   particles (animate PHYSICS apart_world) ! 0
     = \<lparr>px = 100 + 995 / 1000, py = 100, psize = 20, mass = 40, friction = 995 / 1000,
         velocity = \<lparr>vx = 995 / 1000, vy = 0\<rparr>\<rparr>"
proof -
  have w: "particles apart_world = [ball0, ball_far]" "mouse apart_world = Some \<lparr>vx = 100, vy = 100\<rparr>"
    "containerWidth apart_world = 400" "containerHeight apart_world = 300"
    by (simp_all add: apart_world_def)
  have u: "updatePosition ball0 = \<lparr>px = 100 + 995 / 1000, py = 100, psize = 20, mass = 40, friction = 995 / 1000,
         velocity = \<lparr>vx = 995 / 1000, vy = 0\<rparr>\<rparr>"
    by (simp add: updatePosition_eq ball0_def)
  have h: "\<not> repelled PHYSICS (Some \<lparr>vx = 100, vy = 100\<rparr>) ball0"
    "\<not> overlapping ball0 ball_far"
    "\<not> overlapping (updatePosition ball0) ball_far"
    "\<not> touches_wall 400 300 (updatePosition ball0)"
    "0 \<le> friction ball0"
    unfolding u
    by (simp_all add: repelled_def overlapping_def touches_wall_def ball0_def ball_far_def
        distance_horizontal)
  show ?thesis
    using undisturbed_particle_only_slows [where i = 0 and w = apart_world and cfg = PHYSICS] h
    by (simp add: w u less_Suc_eq Let_def)
qed

section \<open>Initialisation checks nothing\<close>

lemma length_createParticle:
  "length (fst (createParticle cfg rnd W H ps k)) = Suc (length ps)"
  by (simp add: createParticle_def Let_def split_beta)

lemma length_createParticles_loop:
  "length (fst (createParticles_loop cfg rnd W H i ps k))
   = length ps + nat (\<lceil>PARTICLE_COUNT cfg\<rceil> - i)"
proof (induction cfg rnd W H i ps k rule: createParticles_loop.induct)
  case (1 cfg rnd W H i ps k)
  show ?case
  proof (cases "of_int i < PARTICLE_COUNT cfg")
    case True
    then have "i < \<lceil>PARTICLE_COUNT cfg\<rceil>"
      by (simp add: less_ceiling_iff)
    then have "nat (\<lceil>PARTICLE_COUNT cfg\<rceil> - i) = Suc (nat (\<lceil>PARTICLE_COUNT cfg\<rceil> - (i + 1)))"
      by simp
    with True 1 show ?thesis
      by (subst createParticles_loop.simps) (simp add: length_createParticle)
  next
    case False
    then have "\<not> i < \<lceil>PARTICLE_COUNT cfg\<rceil>"
      by (simp add: less_ceiling_iff)
    with False show ?thesis
      by (subst createParticles_loop.simps) simp
  qed
qed

lemma createParticle_appends:
  "\<exists>p. fst (createParticle cfg rnd W H ps k) = ps @ [p] \<and> constructed cfg rnd p"
  by (auto simp add: createParticle_def randomSize_def Particle_def Let_def split_beta constructed_def)

lemma createParticles_loop_constructed:
  "list_all (constructed cfg rnd) ps \<Longrightarrow>
     list_all (constructed cfg rnd) (fst (createParticles_loop cfg rnd W H i ps k))"
proof (induction cfg rnd W H i ps k rule: createParticles_loop.induct)
  case (1 cfg rnd W H i ps k)
  show ?case
  proof (cases "of_int i < PARTICLE_COUNT cfg")
    case True
    obtain p where p: "fst (createParticle cfg rnd W H ps k) = ps @ [p]" "constructed cfg rnd p"
      using createParticle_appends by blast
    with "1.prems" have "list_all (constructed cfg rnd) (fst (createParticle cfg rnd W H ps k))"
      by simp
    with True "1.IH" show ?thesis
      by (subst createParticles_loop.simps) simp
  next
    case False
    with "1.prems" show ?thesis
      by (subst createParticles_loop.simps) simp
  qed
qed

text \<open>
  Claim C9, as the script has it. A configuration whose minimum size is above its
  maximum size, or whose particle count is not positive, does not make \<open>init\<close> fail:
  \<open>init\<close> goes on as for any other configuration. It returns a world of the container's
  dimensions, without a mouse position, with one particle for each of the counter values
  0, 1, 2, ... below the count, so with none when the count is zero or negative. Each
  particle has a size \<open>MIN_SIZE + r * (MAX_SIZE - MIN_SIZE)\<close> for a random number \<open>r\<close>,
  whatever the order of the two bounds, twice that as its mass, and the friction of the
  configuration. (The count is taken to be at most \<open>2^53\<close>, up to where the script's
  counter is exact.)
\<close>

theorem init_never_fails:
  assumes "PARTICLE_COUNT cfg \<le> 2 ^ 53"
  shows "\<exists>w. init cfg rnd W H = Inr w \<and> containerWidth w = W \<and> containerHeight w = H \<and>
        mouse w = None \<and> length (particles w) = nat \<lceil>PARTICLE_COUNT cfg\<rceil> \<and>
        (PARTICLE_COUNT cfg \<le> 0 \<longrightarrow> particles w = []) \<and>
        (\<forall>p \<in> set (particles w).
           (\<exists>k. psize p = MIN_SIZE cfg + rnd k * (MAX_SIZE cfg - MIN_SIZE cfg)) \<and>
           mass p = psize p * 2 \<and> friction p = FRICTION cfg)"
proof -
  define ps where "ps = fst (createParticles cfg rnd W H)"
  have "init cfg rnd W H = Inr \<lparr>containerWidth = W, containerHeight = H, mouse = None, particles = ps\<rparr>"
    by (simp add: init_def ps_def)
  moreover have len: "length ps = nat \<lceil>PARTICLE_COUNT cfg\<rceil>"
    by (simp add: ps_def createParticles_def length_createParticles_loop)
  moreover have "ps = []" if "PARTICLE_COUNT cfg \<le> 0"
  proof -
    from that have "\<lceil>PARTICLE_COUNT cfg\<rceil> \<le> 0" by (simp add: ceiling_le_iff)
    with len show ?thesis by simp
  qed
  moreover have "list_all (constructed cfg rnd) ps"
    unfolding ps_def createParticles_def by (rule createParticles_loop_constructed) simp
  then have "\<forall>p \<in> set ps. (\<exists>k. psize p = MIN_SIZE cfg + rnd k * (MAX_SIZE cfg - MIN_SIZE cfg)) \<and>
           mass p = psize p * 2 \<and> friction p = FRICTION cfg"
    by (simp add: list_all_iff constructed_def)
  ultimately show ?thesis by simp
qed

text \<open>At a count of 2.5, with the sizes swapped: three particles of size 40.\<close>

theorem init_never_fails_witness:
  "PARTICLE_COUNT (swapped_sizes\<lparr>PARTICLE_COUNT := 5 / 2\<rparr>) \<le> 2 ^ 53 \<and>
   (\<exists>w. init (swapped_sizes\<lparr>PARTICLE_COUNT := 5 / 2\<rparr>) half_rnd 400 300 = Inr w \<and>
        length (particles w) = 3 \<and>
        (\<forall>p \<in> set (particles w). psize p = 40 \<and> mass p = 80 \<and> friction p = 995 / 1000))"
proof -
  have c: "PARTICLE_COUNT (swapped_sizes\<lparr>PARTICLE_COUNT := 5 / 2\<rparr>) \<le> 2 ^ 53"
    by simp
  have "\<lceil>5 / 2 :: real\<rceil> = 3"
    by (simp add: ceiling_eq_iff)
  then show ?thesis
    using c init_never_fails [OF c, of half_rnd 400 300]
    by (auto simp add: swapped_sizes_def PHYSICS_def half_rnd_def)
qed

text \<open>
  With a particle count of zero \<open>init\<close> returns a world without particles, and with
  \<open>MIN_SIZE = 55\<close> above \<open>MAX_SIZE = 25\<close> it creates a particle of size 40: neither is an
  error.
\<close>

theorem init_invalid_configuration_counterexample:
  "PARTICLE_COUNT no_particles \<le> 0 \<and>
   init no_particles half_rnd 400 300
     = Inr \<lparr>containerWidth = 400, containerHeight = 300, mouse = None, particles = []\<rparr> \<and>
   MIN_SIZE swapped_sizes > MAX_SIZE swapped_sizes \<and>
   init swapped_sizes half_rnd 400 300
     = Inr \<lparr>containerWidth = 400, containerHeight = 300, mouse = None,
            particles = [\<lparr>px = 200, py = 150, psize = 40, mass = 80, friction = 995 / 1000,
                          velocity = \<lparr>vx = 0, vy = 0\<rparr>\<rparr>]\<rparr>"
proof -
  have "createParticles_loop no_particles half_rnd 400 300 0 [] 0 = ([], 0)"
    by (subst createParticles_loop.simps) (simp add: no_particles_def PHYSICS_def)
  moreover have "createParticle swapped_sizes half_rnd 400 300 [] 0
    = ([\<lparr>px = 200, py = 150, psize = 40, mass = 80, friction = 995 / 1000,
                          velocity = \<lparr>vx = 0, vy = 0\<rparr>\<rparr>], 6)"
    by (simp add: createParticle_def randomSize_def findValidPosition_def randomPosition_def
        findValidPosition_loop.simps [of _ _ _ _ "[]"]
        randomColor_def Particle_def randomVelocity_def half_rnd_def swapped_sizes_def PHYSICS_def Let_def)
  then have "createParticles_loop swapped_sizes half_rnd 400 300 0 [] 0
    = ([\<lparr>px = 200, py = 150, psize = 40, mass = 80, friction = 995 / 1000,
                          velocity = \<lparr>vx = 0, vy = 0\<rparr>\<rparr>], 6)"
    by (subst createParticles_loop.simps, subst createParticles_loop.simps)
       (simp add: swapped_sizes_def PHYSICS_def)
  ultimately show ?thesis
    by (simp add: init_def createParticles_def no_particles_def swapped_sizes_def PHYSICS_def)
qed

end
